theory Spec2Isabelle
  imports Complex_Main "HOL-Library.Multiset"
begin

section \<open>Simulation state of \<^verbatim>\<open>spock/simsetup.py\<close>\<close>

text \<open>
  The module works on \<^verbatim>\<open>rebound.Simulation\<close> objects. The embedding keeps, for every
  particle, exactly the attributes that \<^verbatim>\<open>simsetup.py\<close> reads or assigns: the stored
  ones (mass \<open>m\<close>, radius \<open>r\<close>, position \<open>x y z\<close>, velocity \<open>vx vy vz\<close>) and the orbital
  elements (\<open>a\<close>, \<open>e\<close>, \<open>inc\<close>, \<open>pomega\<close>, \<open>Omega\<close>, mean longitude \<open>l\<close>, true longitude
  \<open>theta\<close>, period \<open>P\<close>). An attribute read is a field selection and an attribute
  assignment is a field update, as the Python source writes them.

  Conventions of the embedding:
  \<^item> Python floats are real numbers, and rounding is not modelled: an equation of the
    embedding holds in the program up to floating-point tolerance. The one place where
    the module produces a value that is not a number, the timestep, has a type of its
    own (\<open>npfloat\<close>).
  \<^item> The library derives the orbital elements from the Cartesian state on every read.
    The embedding does not recompute one group of fields from the other: after an
    assignment to an element the Cartesian fields are not updated, and after a rotation
    the orientation angles are not updated. The theorems below therefore speak about an
    attribute only where the program keeps the model's value: the stored attributes of
    a particle whose elements were not assigned, the elements that an assignment sets
    or leaves alone, and \<open>m\<close>, \<open>a\<close> and \<open>e\<close> across the rigid rotations that the module
    applies, on which they do not depend.
  \<^item> Only real particles are modelled (\<^verbatim>\<open>N_var = 0\<close>), so \<^verbatim>\<open>sim.N\<close> and
    \<^verbatim>\<open>sim.N_real\<close> are both the length of the particle list.
  \<^item> Every Python exception is a value of type \<open>error\<close>; a function that can raise
    returns \<open>error + result\<close>. The two \<^verbatim>\<open>AttributeError\<close>s are the ones that
    \<^verbatim>\<open>check_valid_sim\<close> raises, told apart by their message; \<^verbatim>\<open>ValueError\<close>,
    \<^verbatim>\<open>ZeroDivisionError\<close>, \<^verbatim>\<open>TypeError\<close> and \<^verbatim>\<open>UnboundLocalError\<close> are raised by
    Python and NumPy themselves. The last three are raised inside the library and are
    named by their cause: an index outside the particle array, an orbital element of
    the particle at index 0 (which has none), and a removal at an index outside the
    array.
\<close>

datatype error =
    AttributeError_negative_masses
  | AttributeError_primary
  | ValueError
  | ZeroDivisionError
  | TypeError
  | UnboundLocalError
  | Particle_index_out_of_range
  | No_orbit_for_particle_0
  | Remove_index_out_of_range

text \<open>
  A double that the module computes from real inputs: a real number, an infinity (a
  non-zero number divided by zero) or not-a-number.
\<close>

datatype npfloat = Finite real | PosInf | NegInf | NaN

datatype integrator = IAS15 | WHFAST

record particle =
  p_m :: real
  p_r :: real
  p_x :: real
  p_y :: real
  p_z :: real
  p_vx :: real
  p_vy :: real
  p_vz :: real
  p_a :: real
  p_e :: real
  p_inc :: real
  p_pomega :: real
  p_Omega :: real
  p_l :: real
  p_theta :: real
  p_P :: real

record simulation =
  particles :: "particle list"
  sim_G :: real
  sim_dt :: npfloat
  sim_integrator :: integrator

subsection \<open>NumPy reductions\<close>

text \<open>\<^verbatim>\<open>np.min\<close> and \<^verbatim>\<open>np.max\<close> raise \<^verbatim>\<open>ValueError\<close> on an empty array.\<close>

definition np_min :: "real list \<Rightarrow> error + real" where
  "np_min xs = (case xs of [] \<Rightarrow> Inl ValueError | x # rest \<Rightarrow> Inr (fold min rest x))"

definition np_max :: "real list \<Rightarrow> error + real" where
  "np_max xs = (case xs of [] \<Rightarrow> Inl ValueError | x # rest \<Rightarrow> Inr (fold max rest x))"

subsection \<open>\<^verbatim>\<open>check_valid_sim\<close>\<close>

text \<open>
  \<^verbatim>\<open>
  ms = np.array([p.m for p in sim.particles[:sim.N_real]])
  if np.min(ms) < 0: raise AttributeError("... had negative masses")
  if np.max(ms) != ms[0]: raise AttributeError("... index 0 must be the primary ...")
  return
  \<close>
  The function assigns nothing; the state after a successful call is the state before,
  which the embedding returns.
\<close>

definition check_valid_sim :: "simulation \<Rightarrow> error + simulation" where
  "check_valid_sim sim =
     (let ms = map p_m (particles sim) in
      case np_min ms of
        Inl err \<Rightarrow> Inl err
      | Inr mn \<Rightarrow>
          if mn < 0 then Inl AttributeError_negative_masses
          else (case np_max ms of
                  Inl err \<Rightarrow> Inl err
                | Inr mx \<Rightarrow>
                    if mx \<noteq> hd ms then Inl AttributeError_primary else Inr sim))"

subsection \<open>\<^verbatim>\<open>set_integrator_and_timestep\<close>\<close>

text \<open>
  \<^verbatim>\<open>
  Ps = np.array([p.P for p in sim.particles[1:sim.N_real]])
  es = np.array([p.e for p in sim.particles[1:sim.N_real]])
  if np.max(es) < 1:
      minTperi = np.min(Ps*(1-es)**1.5/np.sqrt(1+es))
      sim.dt = 0.05*minTperi
  else:
      sim.dt = np.nan
  if np.max(es) > 0.99: sim.integrator = "ias15"
  else:                 sim.integrator = "whfast"
  \<close>
  \<open>Tperi\<close> is one entry of the array expression, with NumPy's results where the real
  operations are undefined: the power of a negative base with exponent 1.5 and the square
  root of a negative number are not-a-number, and so is everything computed from them; a
  division by zero is an infinity with the sign of the numerator, or not-a-number for
  \<open>0/0\<close>. \<^verbatim>\<open>np.min\<close> returns not-a-number if an entry is not-a-number.
\<close>

definition Tperi :: "real \<Rightarrow> real \<Rightarrow> npfloat" where
  "Tperi P e =
     (if 1 - e < 0 \<or> 1 + e < 0 then NaN
      else if 1 + e = 0
           then (if 0 < P * (1 - e) powr 1.5 then PosInf
                 else if P * (1 - e) powr 1.5 < 0 then NegInf
                 else NaN)
      else Finite (P * (1 - e) powr 1.5 / sqrt (1 + e)))"

fun npfloat_min :: "npfloat \<Rightarrow> npfloat \<Rightarrow> npfloat" where
  "npfloat_min NaN y = NaN"
| "npfloat_min x NaN = NaN"
| "npfloat_min NegInf y = NegInf"
| "npfloat_min x NegInf = NegInf"
| "npfloat_min PosInf y = y"
| "npfloat_min x PosInf = x"
| "npfloat_min (Finite x) (Finite y) = Finite (min x y)"

definition np_min_f :: "npfloat list \<Rightarrow> error + npfloat" where
  "np_min_f xs =
     (case xs of [] \<Rightarrow> Inl ValueError | x # rest \<Rightarrow> Inr (fold npfloat_min rest x))"

text \<open>The product \<^verbatim>\<open>0.05*minTperi\<close>.\<close>

fun times_0_05 :: "npfloat \<Rightarrow> npfloat" where
  "times_0_05 (Finite x) = Finite (0.05 * x)"
| "times_0_05 PosInf = PosInf"
| "times_0_05 NegInf = NegInf"
| "times_0_05 NaN = NaN"

definition set_integrator_and_timestep :: "simulation \<Rightarrow> error + simulation" where
  "set_integrator_and_timestep sim =
     (let Ps = map p_P (drop 1 (particles sim));
          es = map p_e (drop 1 (particles sim))
      in case np_max es of
           Inl err \<Rightarrow> Inl err
         | Inr emax \<Rightarrow>
             (case (if emax < 1
                    then (case np_min_f (map2 Tperi Ps es) of
                            Inl err \<Rightarrow> Inl err
                          | Inr minTperi \<Rightarrow> Inr (times_0_05 minTperi))
                    else Inr NaN) of
                Inl err \<Rightarrow> Inl err
              | Inr dt \<Rightarrow>
                  Inr (sim\<lparr>sim_dt := dt,
                            sim_integrator := (if emax > 0.99 then IAS15 else WHFAST)\<rparr>)))"

subsection \<open>\<^verbatim>\<open>npEulerAnglesTransform\<close> and the two rotation loops\<close>

definition npEulerAnglesTransform ::
  "real \<times> real \<times> real \<Rightarrow> real \<Rightarrow> real \<Rightarrow> real \<Rightarrow> real \<times> real \<times> real" where
  "npEulerAnglesTransform xyz Omega I omega =
     (case xyz of (x, y, z) \<Rightarrow>
        let s1 = sin omega; c1 = cos omega;
            x1 = c1 * x - s1 * y;
            y1 = s1 * x + c1 * y;
            z1 = z;
            s2 = sin I; c2 = cos I;
            x2 = x1;
            y2 = c2 * y1 - s2 * z1;
            z2 = s2 * y1 + c2 * z1;
            s3 = sin Omega; c3 = cos Omega;
            x3 = c3 * x2 - s3 * y2;
            y3 = s3 * x2 + c3 * y2;
            z3 = z2
        in (x3, y3, z3))"

definition p_xyz :: "particle \<Rightarrow> real \<times> real \<times> real" where
  "p_xyz p = (p_x p, p_y p, p_z p)"

definition p_vxyz :: "particle \<Rightarrow> real \<times> real \<times> real" where
  "p_vxyz p = (p_vx p, p_vy p, p_vz p)"

text \<open>
  The body of both rotation loops:
  \<^verbatim>\<open>p.x, p.y, p.z = npEulerAnglesTransform(p.xyz, Omega, I, omega)\<close> followed by
  \<^verbatim>\<open>p.vx, p.vy, p.vz = npEulerAnglesTransform(p.vxyz, Omega, I, omega)\<close>.
\<close>

definition rotate_particle :: "real \<Rightarrow> real \<Rightarrow> real \<Rightarrow> particle \<Rightarrow> particle" where
  "rotate_particle Omega I omega p =
     (case npEulerAnglesTransform (p_xyz p) Omega I omega of (x', y', z') \<Rightarrow>
      case npEulerAnglesTransform (p_vxyz p) Omega I omega of (vx', vy', vz') \<Rightarrow>
        p\<lparr>p_x := x', p_y := y', p_z := z', p_vx := vx', p_vy := vy', p_vz := vz'\<rparr>)"

text \<open>
  The loop of \<^verbatim>\<open>align_simulation\<close>, for the angles that
  \<^verbatim>\<open>_compute_transformation_angles\<close> returned: arguments \<open>(0, theta2, theta1)\<close>.
\<close>

definition align_particles :: "real \<Rightarrow> real \<Rightarrow> simulation \<Rightarrow> simulation" where
  "align_particles theta1 theta2 sim =
     sim\<lparr>particles := map (rotate_particle 0 theta2 theta1) (particles sim)\<rparr>"

text \<open>The loop of \<^verbatim>\<open>replace_trio\<close>: arguments \<open>(-theta1, -theta2, 0)\<close>.\<close>

definition unalign_particles :: "real \<Rightarrow> real \<Rightarrow> simulation \<Rightarrow> simulation" where
  "unalign_particles theta1 theta2 sim =
     sim\<lparr>particles := map (rotate_particle (- theta1) (- theta2) 0) (particles sim)\<rparr>"

subsection \<open>\<^verbatim>\<open>perfect_merge\<close>\<close>

text \<open>
  Particle arithmetic of the library, as \<^verbatim>\<open>perfect_merge\<close> uses it: \<^verbatim>\<open>p*c\<close> copies
  \<open>p\<close> and multiplies position, velocity and mass by \<open>c\<close>; \<^verbatim>\<open>p+q\<close> copies \<open>p\<close> and adds
  position, velocity and mass of \<open>q\<close>; \<^verbatim>\<open>p/c\<close> raises \<^verbatim>\<open>ZeroDivisionError\<close> for
  \<open>c = 0\<close> and multiplies by \<open>1/c\<close> otherwise. The radius is not touched.
\<close>

definition particle_mul :: "particle \<Rightarrow> real \<Rightarrow> particle" where
  "particle_mul p c =
     p\<lparr>p_m := c * p_m p,
        p_x := c * p_x p, p_y := c * p_y p, p_z := c * p_z p,
        p_vx := c * p_vx p, p_vy := c * p_vy p, p_vz := c * p_vz p\<rparr>"

definition particle_add :: "particle \<Rightarrow> particle \<Rightarrow> particle" where
  "particle_add p q =
     p\<lparr>p_m := p_m p + p_m q,
        p_x := p_x p + p_x q, p_y := p_y p + p_y q, p_z := p_z p + p_z q,
        p_vx := p_vx p + p_vx q, p_vy := p_vy p + p_vy q, p_vz := p_vz p + p_vz q\<rparr>"

definition particle_div :: "particle \<Rightarrow> real \<Rightarrow> error + particle" where
  "particle_div p c = (if c = 0 then Inl ZeroDivisionError else Inr (particle_mul p (1 / c)))"

text \<open>
  \<^verbatim>\<open>x**(1/3)\<close> on Python floats: for a negative base the result is a complex number,
  which the assignment to the field \<open>r\<close> of a particle refuses with \<^verbatim>\<open>TypeError\<close>.
\<close>

definition pow_third :: "real \<Rightarrow> error + real" where
  "pow_third x = (if x < 0 then Inl TypeError else Inr (x powr (1 / 3)))"

text \<open>
  \<^verbatim>\<open>
  i = collided_particles_index.p1;  j = collided_particles_index.p2
  total_mass = ps[i].m + ps[j].m
  merged_planet = (ps[i]*ps[i].m + ps[j]*ps[j].m)/total_mass
  merged_radius = (ps[i].r**3 + ps[j].r**3)**(1/3)
  ps[i] = merged_planet;  ps[i].m = total_mass;  ps[i].r = merged_radius
  sim.stop();  return 2
  \<close>
  The result is the state after the call and the returned directive (2: the integrator
  removes the particle with index \<open>j\<close>).
\<close>

definition perfect_merge :: "simulation \<Rightarrow> nat \<Rightarrow> nat \<Rightarrow> error + simulation \<times> nat" where
  "perfect_merge sim i j =
     (let ps = particles sim in
      if \<not> (i < length ps \<and> j < length ps) then Inl Particle_index_out_of_range
      else
        let total_mass = p_m (ps ! i) + p_m (ps ! j) in
        case particle_div
               (particle_add (particle_mul (ps ! i) (p_m (ps ! i)))
                             (particle_mul (ps ! j) (p_m (ps ! j)))) total_mass of
          Inl err \<Rightarrow> Inl err
        | Inr merged_planet \<Rightarrow>
            (case pow_third ((p_r (ps ! i)) ^ 3 + (p_r (ps ! j)) ^ 3) of
               Inl err \<Rightarrow> Inl err
             | Inr merged_radius \<Rightarrow>
                 Inr (sim\<lparr>particles :=
                            ps[i := merged_planet\<lparr>p_m := total_mass, p_r := merged_radius\<rparr>]\<rparr>,
                      2)))"

subsection \<open>Library operations on a simulation\<close>

text \<open>
  Sequencing of calls that can raise: the first error ends the computation.
\<close>

definition bind_err :: "error + 'a \<Rightarrow> ('a \<Rightarrow> error + 'b) \<Rightarrow> error + 'b" where
  "bind_err res f = (case res of Inl err \<Rightarrow> Inl err | Inr v \<Rightarrow> f v)"

text \<open>
  \<^verbatim>\<open>rebound.Simulation()\<close>: no particles, \<open>G = 1\<close>, the library's default timestep and
  integrator.
\<close>

definition new_simulation :: simulation where
  "new_simulation =
     \<lparr>particles = [], sim_G = 1, sim_dt = Finite 0.001, sim_integrator = IAS15\<rparr>"

definition zero_particle :: particle where
  "zero_particle =
     \<lparr>p_m = 0, p_r = 0, p_x = 0, p_y = 0, p_z = 0, p_vx = 0, p_vy = 0, p_vz = 0,
      p_a = 0, p_e = 0, p_inc = 0, p_pomega = 0, p_Omega = 0, p_l = 0, p_theta = 0,
      p_P = 0\<rparr>"

text \<open>
  \<^verbatim>\<open>sim.add(m=...)\<close> appends a particle at rest at the origin. Its element fields are
  never read: every read or assignment of an orbital element of the particle at index 0
  is an error of the library (see \<open>get_a\<close> and \<open>replace_p\<close>).
\<close>

definition add_mass :: "simulation \<Rightarrow> real \<Rightarrow> simulation" where
  "add_mass sim m' = sim\<lparr>particles := particles sim @ [zero_particle\<lparr>p_m := m'\<rparr>]\<rparr>"

text \<open>
  \<^verbatim>\<open>sim.add(m=, a=, e=, inc=, pomega=, Omega=, theta=)\<close> appends a particle with the given
  mass and elements and radius 0. The attributes that the call does not receive
  (Cartesian state, mean longitude, period) are computed by the library from the
  simulation and the arguments; this computation is the parameter \<open>kep\<close>, and nothing is
  assumed about it. The call is modelled for arguments that the library accepts. It
  refuses elements that describe no orbit (a bound orbit with \<open>e > 1\<close>, an unbound one
  with \<open>e < 1\<close>, \<open>e = 1\<close>, \<open>e < 0\<close>) and a primary without mass; the embedding has no
  such error. Where a theorem says that a call returns, it says so for arguments that
  the library accepts.
\<close>

type_synonym orbit_solver =
  "simulation \<Rightarrow> real \<Rightarrow> real \<Rightarrow> real \<Rightarrow> real \<Rightarrow> real \<Rightarrow> real \<Rightarrow> real \<Rightarrow> particle"

definition add_orbit ::
  "orbit_solver \<Rightarrow> simulation \<Rightarrow> real \<Rightarrow> real \<Rightarrow> real \<Rightarrow> real \<Rightarrow> real \<Rightarrow> real \<Rightarrow> real \<Rightarrow> simulation" where
  "add_orbit kep sim m' a' e' inc' pomega' Omega' theta' =
     sim\<lparr>particles := particles sim @
        [(kep sim m' a' e' inc' pomega' Omega' theta')
           \<lparr>p_m := m', p_r := 0, p_a := a', p_e := e', p_inc := inc', p_pomega := pomega',
            p_Omega := Omega', p_theta := theta'\<rparr>]\<rparr>"

text \<open>
  \<^verbatim>\<open>sim.particles[i].a\<close>: an index outside the particle array is refused, and the
  particle at index 0 has no orbital elements.
\<close>

definition get_a :: "simulation \<Rightarrow> nat \<Rightarrow> error + real" where
  "get_a sim i =
     (if \<not> i < length (particles sim) then Inl Particle_index_out_of_range
      else if i = 0 then Inl No_orbit_for_particle_0
      else Inr (p_a (particles sim ! i)))"

text \<open>\<^verbatim>\<open>sim.remove(i)\<close> keeps the order of the remaining particles.\<close>

definition sim_remove :: "simulation \<Rightarrow> nat \<Rightarrow> error + simulation" where
  "sim_remove sim i =
     (if \<not> i < length (particles sim) then Inl Remove_index_out_of_range
      else Inr (sim\<lparr>particles := take i (particles sim) @ drop (Suc i) (particles sim)\<rparr>))"

text \<open>Division of Python floats.\<close>

definition py_div :: "real \<Rightarrow> real \<Rightarrow> error + real" where
  "py_div x y = (if y = 0 then Inl ZeroDivisionError else Inr (x / y))"

text \<open>\<^verbatim>\<open>min(p_inds)\<close> of Python: \<^verbatim>\<open>ValueError\<close> on an empty sequence.\<close>

definition py_min :: "nat list \<Rightarrow> error + nat" where
  "py_min xs = (case xs of [] \<Rightarrow> Inl ValueError | x # rest \<Rightarrow> Inr (fold min rest x))"

text \<open>
  \<^verbatim>\<open>np.argsort\<close>: the indices that sort the array. NumPy's default sort does not fix
  the order of entries that compare equal; the embedding puts them in index order. The
  theorems use only that the result is a permutation of the indices that sorts the
  array, which holds of every order of the ties.
\<close>

definition np_argsort :: "real list \<Rightarrow> nat list" where
  "np_argsort xs = map snd (sort_key fst (zip xs [0..<length xs]))"

subsection \<open>\<^verbatim>\<open>copy_sim\<close>\<close>

text \<open>
  \<^verbatim>\<open>
  sim_copy = rebound.Simulation()
  sim_copy.G = 4*np.pi**2
  ps = sim.particles
  if scaled:
      sim_copy.add(m=1.00)
      a1 = ps[int(min(p_inds))].a
      Mstar = sim.particles[0].m
      for i in range(1, sim.N):
          if i in p_inds:
              sim_copy.add(m=ps[i].m/Mstar, a=ps[i].a/a1, e=ps[i].e, inc=ps[i].inc,
                           pomega=ps[i].pomega, Omega=ps[i].Omega, theta=ps[i].theta)
  if not scaled:
      sim_copy.add(m=sim.particles[0].m)
      for i in range(1, sim.N):
          if i in p_inds:
              sim_copy.add(m=ps[i].m, a=ps[i].a, e=ps[i].e, inc=ps[i].inc,
                           pomega=ps[i].pomega, Omega=ps[i].Omega, theta=ps[i].theta)
  return sim_copy
  \<close>
  The selection \<open>p_inds\<close> is a list of natural numbers. The loops run over
  \<open>[1..<length ps]\<close>, so every \<open>ps ! i\<close> in them is inside the list. The reads of the
  elements of a particle with an index of 1 or more are field selections; the library's
  error for such a read below a primary without mass is not modelled.
\<close>

fun copy_loop_scaled ::
  "orbit_solver \<Rightarrow> particle list \<Rightarrow> nat list \<Rightarrow> real \<Rightarrow> real \<Rightarrow> nat list \<Rightarrow> simulation
     \<Rightarrow> error + simulation" where
  "copy_loop_scaled kep ps p_inds Mstar a1 [] sim_copy = Inr sim_copy"
| "copy_loop_scaled kep ps p_inds Mstar a1 (i # rest) sim_copy =
     (if i \<in> set p_inds
      then bind_err (py_div (p_m (ps ! i)) Mstar) (\<lambda>m'.
           bind_err (py_div (p_a (ps ! i)) a1) (\<lambda>a'.
             copy_loop_scaled kep ps p_inds Mstar a1 rest
               (add_orbit kep sim_copy m' a' (p_e (ps ! i)) (p_inc (ps ! i))
                  (p_pomega (ps ! i)) (p_Omega (ps ! i)) (p_theta (ps ! i)))))
      else copy_loop_scaled kep ps p_inds Mstar a1 rest sim_copy)"

fun copy_loop_unscaled ::
  "orbit_solver \<Rightarrow> particle list \<Rightarrow> nat list \<Rightarrow> nat list \<Rightarrow> simulation \<Rightarrow> simulation" where
  "copy_loop_unscaled kep ps p_inds [] sim_copy = sim_copy"
| "copy_loop_unscaled kep ps p_inds (i # rest) sim_copy =
     (if i \<in> set p_inds
      then copy_loop_unscaled kep ps p_inds rest
             (add_orbit kep sim_copy (p_m (ps ! i)) (p_a (ps ! i)) (p_e (ps ! i))
                (p_inc (ps ! i)) (p_pomega (ps ! i)) (p_Omega (ps ! i)) (p_theta (ps ! i)))
      else copy_loop_unscaled kep ps p_inds rest sim_copy)"

definition copy_sim :: "orbit_solver \<Rightarrow> simulation \<Rightarrow> nat list \<Rightarrow> bool \<Rightarrow> error + simulation" where
  "copy_sim kep sim p_inds scaled =
     (let sim_copy = new_simulation\<lparr>sim_G := 4 * pi ^ 2\<rparr>;
          ps = particles sim
      in if scaled
         then bind_err (py_min p_inds) (\<lambda>i1.
              bind_err (get_a sim i1) (\<lambda>a1.
                copy_loop_scaled kep ps p_inds (p_m (ps ! 0)) a1 [1..<length ps]
                  (add_mass sim_copy 1)))
         else if ps = [] then Inl Particle_index_out_of_range
         else Inr (copy_loop_unscaled kep ps p_inds [1..<length ps]
                     (add_mass sim_copy (p_m (ps ! 0)))))"

subsection \<open>\<^verbatim>\<open>replace_p\<close>\<close>

text \<open>
  The seven assignments \<^verbatim>\<open>sim.particles[p_ind].m = new_particle.m\<close>, \<open>...\<close>,
  \<^verbatim>\<open>sim.particles[p_ind].l = new_particle.l\<close>. For \<open>p_ind = 0\<close> the assignment of \<open>a\<close>
  raises, as every access to an element of the particle at index 0 does.

  The library keeps the argument of pericentre of a particle when its \<open>Omega\<close> is
  assigned. The assignment of \<open>Omega\<close> comes after that of \<open>pomega\<close>, so it moves the
  longitude of pericentre that was just assigned by the change of \<open>Omega\<close>. The mean
  longitude is assigned last and stays as assigned. What the particles outside of the
  assigned one read afterwards is not modelled; the theorems speak about the mass and the
  semi-major axis of the assigned particle only.
\<close>

definition assign_elements :: "particle \<Rightarrow> particle \<Rightarrow> particle" where
  "assign_elements p new_particle =
     p\<lparr>p_m := p_m new_particle, p_a := p_a new_particle, p_e := p_e new_particle,
        p_inc := p_inc new_particle,
        p_pomega := p_pomega new_particle + (p_Omega new_particle - p_Omega p),
        p_Omega := p_Omega new_particle, p_l := p_l new_particle\<rparr>"

definition replace_p :: "simulation \<Rightarrow> nat \<Rightarrow> particle \<Rightarrow> error + simulation" where
  "replace_p sim p_ind new_particle =
     (if \<not> p_ind < length (particles sim) then Inl Particle_index_out_of_range
      else if p_ind = 0 then Inl No_orbit_for_particle_0
      else Inr (sim\<lparr>particles :=
                  (particles sim)[p_ind := assign_elements (particles sim ! p_ind) new_particle]\<rparr>))"

subsection \<open>\<^verbatim>\<open>replace_trio\<close>\<close>

text \<open>
  The first loop,
  \<^verbatim>\<open>for i in range(1, len(new_ps)): new_ps[i].a = original_a1*new_ps[i].a\<close>,
  assigns into the particles of the caller's \<^verbatim>\<open>new_state_sim\<close>.
\<close>

definition rescale_new_state :: "real \<Rightarrow> simulation \<Rightarrow> simulation" where
  "rescale_new_state original_a1 new_state_sim =
     new_state_sim\<lparr>particles :=
       (case particles new_state_sim of
          [] \<Rightarrow> []
        | p0 # rest \<Rightarrow> p0 # map (\<lambda>p. p\<lparr>p_a := original_a1 * p_a p\<rparr>) rest)\<rparr>"

text \<open>
  \<^verbatim>\<open>
  if len(new_ps) == 3:
      sim_copy = original_sim.copy()
      replace_p(sim_copy, ind1, new_ps[1]); replace_p(sim_copy, ind2, new_ps[2])
      sim_copy.remove(ind3)
  if len(new_ps) == 2:
      sim_copy = original_sim.copy()
      replace_p(sim_copy, ind1, new_ps[1])
      sim_copy.remove(ind3); sim_copy.remove(ind2)
  if len(new_ps) == 1:
      sim_copy = original_sim.copy()
      sim_copy.remove(ind3); sim_copy.remove(ind2); sim_copy.remove(ind1)
  \<close>
  For any other length no branch binds \<^verbatim>\<open>sim_copy\<close>, and the next statement, which
  reads it, raises \<^verbatim>\<open>UnboundLocalError\<close>.
\<close>

definition splice_trio ::
  "simulation \<Rightarrow> nat \<Rightarrow> nat \<Rightarrow> nat \<Rightarrow> particle list \<Rightarrow> error + simulation" where
  "splice_trio original_sim ind1 ind2 ind3 new_ps =
     (if length new_ps = 3
      then bind_err (replace_p original_sim ind1 (new_ps ! 1)) (\<lambda>s1.
           bind_err (replace_p s1 ind2 (new_ps ! 2)) (\<lambda>s2.
             sim_remove s2 ind3))
      else if length new_ps = 2
      then bind_err (replace_p original_sim ind1 (new_ps ! 1)) (\<lambda>s1.
           bind_err (sim_remove s1 ind3) (\<lambda>s2.
             sim_remove s2 ind2))
      else if length new_ps = 1
      then bind_err (sim_remove original_sim ind3) (\<lambda>s1.
           bind_err (sim_remove s1 ind2) (\<lambda>s2.
             sim_remove s2 ind1))
      else Inl UnboundLocalError)"

text \<open>
  \<^verbatim>\<open>
  ps = sim_copy.particles
  semi_as = []
  for i in range(1, len(ps)): semi_as.append(ps[i].a)
  sort_inds = np.argsort(semi_as)
  ordered_sim = sim_copy.copy()
  for i, ind in enumerate(sort_inds):
      replace_p(ordered_sim, i+1, ps[int(ind)+1])
  return ordered_sim
  \<close>
\<close>

fun reorder_loop :: "particle list \<Rightarrow> (nat \<times> nat) list \<Rightarrow> simulation \<Rightarrow> error + simulation" where
  "reorder_loop ps [] ordered_sim = Inr ordered_sim"
| "reorder_loop ps ((i, ind) # rest) ordered_sim =
     (if \<not> ind + 1 < length ps then Inl Particle_index_out_of_range
      else bind_err (replace_p ordered_sim (i + 1) (ps ! (ind + 1)))
             (reorder_loop ps rest))"

definition reorder_particles :: "simulation \<Rightarrow> error + simulation" where
  "reorder_particles sim_copy =
     (let ps = particles sim_copy;
          semi_as = map p_a (drop 1 ps);
          sort_inds = np_argsort semi_as
      in reorder_loop ps (zip [0..<length sort_inds] sort_inds) sim_copy)"

text \<open>
  The whole function. \<open>trio_inds\<close> is the triple \<^verbatim>\<open>trio_inds[0], trio_inds[1],
  trio_inds[2]\<close>. The result is a pair: what the call returns or raises, and the state of
  the caller's \<^verbatim>\<open>new_state_sim\<close> after the call.
\<close>

definition replace_trio ::
  "simulation \<Rightarrow> nat \<times> nat \<times> nat \<Rightarrow> simulation \<Rightarrow> real \<Rightarrow> real
     \<Rightarrow> (error + simulation) \<times> simulation" where
  "replace_trio original_sim trio_inds new_state_sim theta1 theta2 =
     (case trio_inds of (ind1, ind2, ind3) \<Rightarrow>
        (case get_a original_sim ind1 of
           Inl err \<Rightarrow> (Inl err, new_state_sim)
         | Inr original_a1 \<Rightarrow>
             (let new_state_sim' = rescale_new_state original_a1 new_state_sim;
                  new_ps = particles new_state_sim'
              in (bind_err (splice_trio original_sim ind1 ind2 ind3 new_ps) (\<lambda>sim_copy.
                    reorder_particles (unalign_particles theta1 theta2 sim_copy)),
                  new_state_sim'))))"

subsection \<open>Example states\<close>

text \<open>
  Concrete particles and states at which the theorems below are instantiated: a particle
  with given mass, semi-major axis and eccentricity and every other attribute zero, a
  simulation with given particles and the library's defaults, and an orbit solver that
  leaves the attributes it is responsible for at zero.
\<close>

definition body :: "real \<Rightarrow> real \<Rightarrow> real \<Rightarrow> particle" where
  "body m' a' e' = zero_particle\<lparr>p_m := m', p_a := a', p_e := e'\<rparr>"

definition sim_of :: "particle list \<Rightarrow> simulation" where
  "sim_of ps = new_simulation\<lparr>particles := ps\<rparr>"

definition zero_solver :: orbit_solver where
  "zero_solver sim m' a' e' inc' pomega' Omega' theta' = zero_particle"

subsection \<open>Groups of attributes\<close>

text \<open>
  The seven attributes that \<^verbatim>\<open>copy_sim\<close> passes to \<^verbatim>\<open>add\<close> (with the true longitude
  \<open>theta\<close>).
\<close>

definition add_args :: "particle \<Rightarrow> real \<times> real \<times> real \<times> real \<times> real \<times> real \<times> real" where
  "add_args p = (p_m p, p_a p, p_e p, p_inc p, p_pomega p, p_Omega p, p_theta p)"

text \<open>
  The attributes that the library stores for a particle (the orbital elements are
  computed from them and from the other particles), and the mass and the elements of
  shape and orientation that an assignment to the semi-major axis leaves as they are.
\<close>

definition stored_state ::
  "particle \<Rightarrow> real \<times> real \<times> real \<times> real \<times> real \<times> real \<times> real \<times> real" where
  "stored_state p = (p_m p, p_r p, p_x p, p_y p, p_z p, p_vx p, p_vy p, p_vz p)"


section \<open>Properties\<close>

subsection \<open>Reductions\<close>

lemma np_min_Min: "xs \<noteq> [] \<Longrightarrow> np_min xs = Inr (Min (set xs))"
proof (cases xs)
  case Nil
  assume "xs \<noteq> []"
  with Nil show ?thesis by simp
next
  case (Cons x rest)
  have "fold min rest x = Min (set (x # rest))" by (rule Min.set_eq_fold [symmetric])
  with Cons show ?thesis by (simp add: np_min_def)
qed

lemma np_max_Max: "xs \<noteq> [] \<Longrightarrow> np_max xs = Inr (Max (set xs))"
proof (cases xs)
  case Nil
  assume "xs \<noteq> []"
  with Nil show ?thesis by simp
next
  case (Cons x rest)
  have "fold max rest x = Max (set (x # rest))" by (rule Max.set_eq_fold [symmetric])
  with Cons show ?thesis by (simp add: np_max_def)
qed

subsection \<open>Validation\<close>

lemma check_valid_sim_cases:
  assumes "particles sim \<noteq> []"
  shows "check_valid_sim sim =
           (if \<exists>p\<in>set (particles sim). p_m p < 0 then Inl AttributeError_negative_masses
            else if p_m (particles sim ! 0) \<noteq> Max (p_m ` set (particles sim))
                 then Inl AttributeError_primary
            else Inr sim)"
proof -
  let ?ms = "map p_m (particles sim)"
  have ne: "?ms \<noteq> []" using assms by simp
  have mn: "np_min ?ms = Inr (Min (p_m ` set (particles sim)))"
    using np_min_Min [OF ne] by simp
  have mx: "np_max ?ms = Inr (Max (p_m ` set (particles sim)))"
    using np_max_Max [OF ne] by simp
  have neg: "(Min (p_m ` set (particles sim)) < 0) = (\<exists>p\<in>set (particles sim). p_m p < 0)"
    using assms by (simp add: Min_less_iff)
  have h: "hd ?ms = p_m (particles sim ! 0)"
    using assms by (simp add: hd_map hd_conv_nth)
  show ?thesis
    unfolding check_valid_sim_def Let_def mn mx sum.case neg h
    by auto
qed

text \<open>
  Claim C6, as stated: validation fails with the negative-mass error if and only if some
  mass is negative, fails with the non-dominant-primary error if the body at index 0 is
  not the body of maximal mass, and otherwise succeeds and leaves the state as it was.

  The second clause does not hold as stated. The negative-mass test comes first, so a
  state in which index 0 is not maximal and some mass is negative fails with the
  negative-mass error (masses 1, 2, -1 below). The clause holds for states without a
  negative mass, and the theorem states it so, for a state that has a body at index 0.
\<close>

theorem check_valid_sim_outcomes:
  assumes "particles sim \<noteq> []"
  shows "(check_valid_sim sim = Inl AttributeError_negative_masses
            \<longleftrightarrow> (\<exists>p\<in>set (particles sim). p_m p < 0)) \<and>
         ((\<forall>p\<in>set (particles sim). 0 \<le> p_m p) \<longrightarrow>
            (check_valid_sim sim = Inl AttributeError_primary
               \<longleftrightarrow> p_m (particles sim ! 0) \<noteq> Max (p_m ` set (particles sim)))) \<and>
         ((\<forall>p\<in>set (particles sim). 0 \<le> p_m p) \<and>
          p_m (particles sim ! 0) = Max (p_m ` set (particles sim)) \<longrightarrow>
            check_valid_sim sim = Inr sim)"
proof -
  have neg: "(\<exists>p\<in>set (particles sim). p_m p < 0) = (\<not> (\<forall>p\<in>set (particles sim). 0 \<le> p_m p))"
    by (meson not_le)
  show ?thesis
    unfolding check_valid_sim_cases [OF assms] neg by simp
qed

theorem check_valid_sim_outcomes_witness:
  "check_valid_sim (sim_of [body 1 0 0, body (1/100000) 1 0]) =
     Inr (sim_of [body 1 0 0, body (1/100000) 1 0]) \<and>
   check_valid_sim (sim_of [body 1 0 0, body (- 1) 1 0]) = Inl AttributeError_negative_masses \<and>
   check_valid_sim (sim_of [body 1 0 0, body 2 1 0]) = Inl AttributeError_primary"
proof -
  let ?ok = "sim_of [body 1 0 0, body (1/100000) 1 0]"
  let ?neg = "sim_of [body 1 0 0, body (- 1) 1 0]"
  let ?big = "sim_of [body 1 0 0, body 2 1 0]"
  have ok1: "particles ?ok \<noteq> []" by (simp add: sim_of_def)
  have ok2: "\<forall>p\<in>set (particles ?ok). 0 \<le> p_m p" by (simp add: sim_of_def body_def)
  have ok3: "p_m (particles ?ok ! 0) = Max (p_m ` set (particles ?ok))"
    by (simp add: sim_of_def body_def)
  have neg1: "particles ?neg \<noteq> []" by (simp add: sim_of_def)
  have neg2: "\<exists>p\<in>set (particles ?neg). p_m p < 0" by (simp add: sim_of_def body_def)
  have big1: "particles ?big \<noteq> []" by (simp add: sim_of_def)
  have big2: "\<forall>p\<in>set (particles ?big). 0 \<le> p_m p" by (simp add: sim_of_def body_def)
  have big3: "p_m (particles ?big ! 0) \<noteq> Max (p_m ` set (particles ?big))"
    by (simp add: sim_of_def body_def)
  from check_valid_sim_outcomes [OF ok1] ok2 ok3 have a: "check_valid_sim ?ok = Inr ?ok"
    by blast
  from check_valid_sim_outcomes [OF neg1] neg2
  have b: "check_valid_sim ?neg = Inl AttributeError_negative_masses" by blast
  from check_valid_sim_outcomes [OF big1] big2 big3
  have c: "check_valid_sim ?big = Inl AttributeError_primary" by blast
  from a b c show ?thesis by blast
qed

text \<open>
  The state with masses 1, 2, -1: the body at index 0 is not the body of maximal mass,
  and validation fails with the negative-mass error, not the non-dominant-primary one.
\<close>

theorem check_valid_sim_precedence_counterexample:
  "p_m (particles (sim_of [body 1 0 0, body 2 1 0, body (- 1) 2 0]) ! 0)
     \<noteq> Max (p_m ` set (particles (sim_of [body 1 0 0, body 2 1 0, body (- 1) 2 0]))) \<and>
   check_valid_sim (sim_of [body 1 0 0, body 2 1 0, body (- 1) 2 0])
     = Inl AttributeError_negative_masses \<and>
   check_valid_sim (sim_of [body 1 0 0, body 2 1 0, body (- 1) 2 0])
     \<noteq> Inl AttributeError_primary"
  by (simp add: check_valid_sim_def np_min_def np_max_def sim_of_def body_def)

subsection \<open>Timestep\<close>

lemma fold_npfloat_min_Finite:
  "fold npfloat_min (map Finite rest) (Finite x) = Finite (fold min rest x)"
  by (induction rest arbitrary: x) simp_all

lemma np_min_f_Finite:
  assumes "xs \<noteq> []"
  shows "np_min_f (map Finite xs) = Inr (Finite (Min (set xs)))"
proof -
  obtain x rest where xs: "xs = x # rest" using assms by (cases xs) auto
  have "fold min rest x = Min (set (x # rest))" by (rule Min.set_eq_fold [symmetric])
  then show ?thesis
    unfolding xs by (simp add: np_min_f_def fold_npfloat_min_Finite)
qed

lemma Tperi_elliptic:
  "0 \<le> e \<Longrightarrow> e < 1 \<Longrightarrow> Tperi P e = Finite (P * (1 - e) powr 1.5 / sqrt (1 + e))"
  by (simp add: Tperi_def)

lemma map2_Tperi_elliptic:
  assumes "\<forall>p\<in>set qs. 0 \<le> p_e p \<and> p_e p < 1"
  shows "map2 Tperi (map p_P qs) (map p_e qs) =
           map Finite (map (\<lambda>p. p_P p * (1 - p_e p) powr 1.5 / sqrt (1 + p_e p)) qs)"
  using assms by (induction qs) (simp_all add: Tperi_elliptic)

text \<open>
  Claim C4: for a state with at least one non-dominant body, if every non-dominant body
  has eccentricity below 1 the timestep becomes 0.05 times the minimum over these bodies
  of \<open>P (1 - e)\<^sup>1\<^sup>.\<^sup>5 / sqrt (1 + e)\<close>; if the largest eccentricity is at least 1 the timestep
  becomes the not-a-number value, which is not zero, and the call raises nothing.
  Eccentricities are non-negative, as the library computes them (the norm of the
  eccentricity vector); an eccentricity of -1 or less would make an entry of the array
  infinite or not-a-number.
\<close>

theorem set_integrator_and_timestep_dt:
  assumes planets: "1 < length (particles sim)"
      and ecc: "\<forall>p\<in>set (drop 1 (particles sim)). 0 \<le> p_e p"
  shows "((\<forall>p\<in>set (drop 1 (particles sim)). p_e p < 1) \<longrightarrow>
            (\<exists>sim'. set_integrator_and_timestep sim = Inr sim' \<and>
               sim_dt sim' =
                 Finite (0.05 * Min ((\<lambda>p. p_P p * (1 - p_e p) powr 1.5 / sqrt (1 + p_e p))
                                        ` set (drop 1 (particles sim)))))) \<and>
         (1 \<le> Max (p_e ` set (drop 1 (particles sim))) \<longrightarrow>
            (\<exists>sim'. set_integrator_and_timestep sim = Inr sim' \<and>
               sim_dt sim' = NaN \<and> sim_dt sim' \<noteq> Finite 0))"
proof -
  define qs where "qs = drop 1 (particles sim)"
  define T :: "particle \<Rightarrow> real"
    where "T = (\<lambda>p. p_P p * (1 - p_e p) powr 1.5 / sqrt (1 + p_e p))"
  have ne: "qs \<noteq> []" using planets by (simp add: qs_def)
  have nonneg: "\<forall>p\<in>set qs. 0 \<le> p_e p" using ecc by (simp add: qs_def)
  have mx: "np_max (map p_e qs) = Inr (Max (p_e ` set qs))"
    using np_max_Max [of "map p_e qs"] ne by simp
  have all_lt: "(Max (p_e ` set qs) < 1) = (\<forall>p\<in>set qs. p_e p < 1)"
    using ne by (simp add: Max_less_iff)
  have bounded: "(\<forall>p\<in>set qs. p_e p < 1) \<longrightarrow>
            (\<exists>sim'. set_integrator_and_timestep sim = Inr sim' \<and>
               sim_dt sim' = Finite (0.05 * Min (T ` set qs)))"
  proof
    assume lt: "\<forall>p\<in>set qs. p_e p < 1"
    with nonneg have "\<forall>p\<in>set qs. 0 \<le> p_e p \<and> p_e p < 1" by blast
    then have "map2 Tperi (map p_P qs) (map p_e qs) = map Finite (map T qs)"
      unfolding T_def by (rule map2_Tperi_elliptic)
    moreover have "np_min_f (map Finite (map T qs)) = Inr (Finite (Min (set (map T qs))))"
      by (rule np_min_f_Finite) (use ne in simp)
    ultimately have mn: "np_min_f (map2 Tperi (map p_P qs) (map p_e qs)) =
                           Inr (Finite (Min (T ` set qs)))"
      by simp
    from lt have m1: "Max (p_e ` set qs) < 1" by (simp only: all_lt)
    have "set_integrator_and_timestep sim =
            Inr (sim\<lparr>sim_dt := Finite (0.05 * Min (T ` set qs)),
                      sim_integrator := (if Max (p_e ` set qs) > 0.99 then IAS15 else WHFAST)\<rparr>)"
      unfolding set_integrator_and_timestep_def Let_def qs_def [symmetric] mx mn sum.case
      using m1 by simp
    then show "\<exists>sim'. set_integrator_and_timestep sim = Inr sim' \<and>
               sim_dt sim' = Finite (0.05 * Min (T ` set qs))"
      by simp
  qed
  have hyperbolic: "1 \<le> Max (p_e ` set qs) \<longrightarrow>
            (\<exists>sim'. set_integrator_and_timestep sim = Inr sim' \<and>
               sim_dt sim' = NaN \<and> sim_dt sim' \<noteq> Finite 0)"
    unfolding set_integrator_and_timestep_def Let_def qs_def [symmetric] mx sum.case
    by simp
  from bounded hyperbolic show ?thesis unfolding qs_def T_def by blast
qed

text \<open>
  Two states: circular orbits of periods 1 and 3, where the timestep is 0.05; and a state
  with a body of eccentricity 1.2, where it is not-a-number.
\<close>

theorem set_integrator_and_timestep_dt_witness:
  "map_sum id sim_dt
     (set_integrator_and_timestep
        (sim_of [body 1 0 0, (body 0 1 0)\<lparr>p_P := 1\<rparr>, (body 0 2 0)\<lparr>p_P := 3\<rparr>]))
     = Inr (Finite 0.05) \<and>
   map_sum id sim_dt
     (set_integrator_and_timestep
        (sim_of [body 1 0 0, (body 0 (- 1) 1.2)\<lparr>p_P := - 1\<rparr>, (body 0 2 0)\<lparr>p_P := 3\<rparr>]))
     = Inr NaN"
proof -
  let ?s = "sim_of [body 1 0 0, (body 0 1 0)\<lparr>p_P := 1\<rparr>, (body 0 2 0)\<lparr>p_P := 3\<rparr>]"
  let ?h = "sim_of [body 1 0 0, (body 0 (- 1) 1.2)\<lparr>p_P := - 1\<rparr>, (body 0 2 0)\<lparr>p_P := 3\<rparr>]"
  have s1: "1 < length (particles ?s)" by (simp add: sim_of_def)
  have s2: "\<forall>p\<in>set (drop 1 (particles ?s)). 0 \<le> p_e p" by (simp add: sim_of_def body_def)
  have s3: "\<forall>p\<in>set (drop 1 (particles ?s)). p_e p < 1" by (simp add: sim_of_def body_def)
  have s4: "Min ((\<lambda>p. p_P p * (1 - p_e p) powr 1.5 / sqrt (1 + p_e p))
                   ` set (drop 1 (particles ?s))) = 1"
    by (simp add: sim_of_def body_def)
  from set_integrator_and_timestep_dt [OF s1 s2] s3
  obtain sim' where a: "set_integrator_and_timestep ?s = Inr sim'"
    and b: "sim_dt sim' =
              Finite (0.05 * Min ((\<lambda>p. p_P p * (1 - p_e p) powr 1.5 / sqrt (1 + p_e p))
                                    ` set (drop 1 (particles ?s))))"
    by blast
  have b': "sim_dt sim' = Finite 0.05"
    using b unfolding s4 by simp
  have first: "map_sum id sim_dt (set_integrator_and_timestep ?s) = Inr (Finite 0.05)"
    using a b' by simp
  have h1: "1 < length (particles ?h)" by (simp add: sim_of_def)
  have h2: "\<forall>p\<in>set (drop 1 (particles ?h)). 0 \<le> p_e p" by (simp add: sim_of_def body_def)
  have h3: "1 \<le> Max (p_e ` set (drop 1 (particles ?h)))" by (simp add: sim_of_def body_def)
  from set_integrator_and_timestep_dt [OF h1 h2] h3
  obtain sim'' where c: "set_integrator_and_timestep ?h = Inr sim''" and d: "sim_dt sim'' = NaN"
    by blast
  have second: "map_sum id sim_dt (set_integrator_and_timestep ?h) = Inr NaN"
    using c d by simp
  from first second show ?thesis by blast
qed

subsection \<open>Frame rotation\<close>

lemma sin_cos_unit: "sin t * sin t + cos t * cos t = (1::real)"
  using sin_cos_squared_add [of t] by (simp add: power2_eq_square)

lemma rot_back1: "s * s + c * c = (1::real) \<Longrightarrow> c * (c * u - s * v) + s * (s * u + c * v) = u"
  by algebra

lemma rot_back2: "s * s + c * c = (1::real) \<Longrightarrow> c * (s * u + c * v) - s * (c * u - s * v) = v"
  by algebra

lemma euler_inverse_aux:
  "npEulerAnglesTransform (npEulerAnglesTransform (x, y, z) 0 theta2 theta1)
     (- theta1) (- theta2) 0 = (x, y, z)"
  unfolding npEulerAnglesTransform_def Let_def
  apply (simp only: prod.case sin_zero cos_zero sin_minus cos_minus)
  apply (simp add: rot_back1 [OF sin_cos_unit] rot_back2 [OF sin_cos_unit])
  done

lemma rotate_particle_fields:
  "npEulerAnglesTransform (p_x p, p_y p, p_z p) Omega I omega = (x', y', z') \<Longrightarrow>
   npEulerAnglesTransform (p_vx p, p_vy p, p_vz p) Omega I omega = (vx', vy', vz') \<Longrightarrow>
   rotate_particle Omega I omega p =
     p\<lparr>p_x := x', p_y := y', p_z := z', p_vx := vx', p_vy := vy', p_vz := vz'\<rparr>"
  by (simp add: rotate_particle_def p_xyz_def p_vxyz_def)

lemma rotate_particle_inverse:
  "rotate_particle (- theta1) (- theta2) 0 (rotate_particle 0 theta2 theta1 p) = p"
proof -
  obtain x' y' z' where r:
    "npEulerAnglesTransform (p_x p, p_y p, p_z p) 0 theta2 theta1 = (x', y', z')"
    by (cases "npEulerAnglesTransform (p_x p, p_y p, p_z p) 0 theta2 theta1") auto
  obtain vx' vy' vz' where v:
    "npEulerAnglesTransform (p_vx p, p_vy p, p_vz p) 0 theta2 theta1 = (vx', vy', vz')"
    by (cases "npEulerAnglesTransform (p_vx p, p_vy p, p_vz p) 0 theta2 theta1") auto
  let ?q = "p\<lparr>p_x := x', p_y := y', p_z := z', p_vx := vx', p_vy := vy', p_vz := vz'\<rparr>"
  have q: "rotate_particle 0 theta2 theta1 p = ?q" by (rule rotate_particle_fields [OF r v])
  have rb: "npEulerAnglesTransform (p_x ?q, p_y ?q, p_z ?q) (- theta1) (- theta2) 0
              = (p_x p, p_y p, p_z p)"
    using euler_inverse_aux [of "p_x p" "p_y p" "p_z p" theta2 theta1] r by simp
  have vb: "npEulerAnglesTransform (p_vx ?q, p_vy ?q, p_vz ?q) (- theta1) (- theta2) 0
              = (p_vx p, p_vy p, p_vz p)"
    using euler_inverse_aux [of "p_vx p" "p_vy p" "p_vz p" theta2 theta1] v by simp
  show ?thesis
    unfolding q rotate_particle_fields [OF rb vb] by simp
qed

lemma unalign_align: "unalign_particles theta1 theta2 (align_particles theta1 theta2 sim) = sim"
  by (simp add: unalign_particles_def align_particles_def rotate_particle_inverse comp_def)

text \<open>
  Claim C3: applying the Euler-angle transform with arguments \<open>(0, theta2, theta1)\<close> and
  then with \<open>(-theta1, -theta2, 0)\<close> restores the vector. Over the reals the result is the
  original vector itself, for every pair of angles, hence for every pair computed from an
  angular-momentum vector; the same holds for the position and velocity of a particle and
  for the two loops applied to a whole simulation.
\<close>

theorem npEulerAnglesTransform_round_trip:
  "npEulerAnglesTransform (npEulerAnglesTransform xyz 0 theta2 theta1)
     (- theta1) (- theta2) 0 = xyz \<and>
   rotate_particle (- theta1) (- theta2) 0 (rotate_particle 0 theta2 theta1 p) = p \<and>
   unalign_particles theta1 theta2 (align_particles theta1 theta2 sim) = sim"
proof -
  obtain x y z where "xyz = (x, y, z)" by (cases xyz) auto
  then show ?thesis by (simp add: euler_inverse_aux rotate_particle_inverse unalign_align)
qed

subsection \<open>Extraction\<close>

lemma bind_err_simps [simp]:
  "bind_err (Inl err) f = Inl err"
  "bind_err (Inr v) f = f v"
  by (simp_all add: bind_err_def)

lemma add_orbit_G [simp]: "sim_G (add_orbit kep c m' a' e' i' po' Om' th') = sim_G c"
  by (simp add: add_orbit_def)

lemma add_mass_G [simp]: "sim_G (add_mass c m') = sim_G c"
  by (simp add: add_mass_def)

lemma add_orbit_args:
  "map add_args (particles (add_orbit kep c m' a' e' i' po' Om' th')) =
     map add_args (particles c) @ [(m', a', e', i', po', Om', th')]"
  by (simp add: add_orbit_def add_args_def)

lemma copy_loop_unscaled_G [simp]: "sim_G (copy_loop_unscaled kep ps p_inds is c) = sim_G c"
  by (induction "is" arbitrary: c) simp_all

lemma copy_loop_unscaled_args:
  "map add_args (particles (copy_loop_unscaled kep ps p_inds is c)) =
     map add_args (particles c) @ map (\<lambda>i. add_args (ps ! i)) (filter (\<lambda>i. i \<in> set p_inds) is)"
proof (induction "is" arbitrary: c)
  case Nil
  show ?case by simp
next
  case (Cons i rest)
  show ?case
  proof (cases "i \<in> set p_inds")
    case True
    then show ?thesis
      by (simp add: Cons.IH add_orbit_args) (simp add: add_args_def)
  next
    case False
    then show ?thesis by (simp add: Cons.IH)
  qed
qed

lemma copy_loop_scaled_G:
  "copy_loop_scaled kep ps p_inds Mstar a1 is c = Inr c' \<Longrightarrow> sim_G c' = sim_G c"
proof (induction "is" arbitrary: c)
  case Nil
  then show ?case by simp
next
  case (Cons i rest)
  show ?case
  proof (cases "i \<in> set p_inds")
    case False
    with Cons show ?thesis by simp
  next
    case True
    show ?thesis
    proof (cases "Mstar = 0 \<or> a1 = 0")
      case True
      with \<open>i \<in> set p_inds\<close> Cons.prems show ?thesis
        by (auto simp add: py_div_def split: if_splits)
    next
      case False
      with \<open>i \<in> set p_inds\<close> Cons.prems
      have "copy_loop_scaled kep ps p_inds Mstar a1 rest
              (add_orbit kep c (p_m (ps ! i) / Mstar) (p_a (ps ! i) / a1) (p_e (ps ! i))
                 (p_inc (ps ! i)) (p_pomega (ps ! i)) (p_Omega (ps ! i)) (p_theta (ps ! i))) = Inr c'"
        by (simp add: py_div_def)
      from Cons.IH [OF this] show ?thesis by simp
    qed
  qed
qed

lemma copy_sim_unscaled:
  assumes "particles sim \<noteq> []"
  shows "copy_sim kep sim p_inds False =
           Inr (copy_loop_unscaled kep (particles sim) p_inds [1..<length (particles sim)]
                  (add_mass (new_simulation\<lparr>sim_G := 4 * pi ^ 2\<rparr>) (p_m (particles sim ! 0))))"
  using assms by (simp add: copy_sim_def Let_def)

text \<open>
  Claim C9: every extraction that returns, with or without normalisation, returns a state
  whose gravitational constant is \<open>4 pi\<^sup>2\<close>, whatever the constant of the source state;
  and without normalisation the extraction of a state with at least one body does return.
\<close>

theorem copy_sim_G:
  "(copy_sim kep sim p_inds scaled = Inr sim_copy \<longrightarrow> sim_G sim_copy = 4 * pi ^ 2) \<and>
   (particles sim \<noteq> [] \<longrightarrow>
      (\<exists>c. copy_sim kep sim p_inds False = Inr c \<and> sim_G c = 4 * pi ^ 2))"
proof -
  have unscaled: "particles sim \<noteq> [] \<longrightarrow>
      (\<exists>c. copy_sim kep sim p_inds False = Inr c \<and> sim_G c = 4 * pi ^ 2)"
    by (simp add: copy_sim_unscaled)
  have any: "copy_sim kep sim p_inds scaled = Inr sim_copy \<longrightarrow> sim_G sim_copy = 4 * pi ^ 2"
  proof
    assume r: "copy_sim kep sim p_inds scaled = Inr sim_copy"
    show "sim_G sim_copy = 4 * pi ^ 2"
    proof (cases scaled)
      case False
      with r show ?thesis
        by (cases "particles sim = []") (auto simp add: copy_sim_def Let_def)
    next
      case True
      from r True obtain a1 where
        "copy_loop_scaled kep (particles sim) p_inds (p_m (particles sim ! 0)) a1
           [1..<length (particles sim)] (add_mass (new_simulation\<lparr>sim_G := 4 * pi ^ 2\<rparr>) 1)
         = Inr sim_copy"
        by (auto simp add: copy_sim_def Let_def bind_err_def split: sum.splits)
      from copy_loop_scaled_G [OF this] show ?thesis by simp
    qed
  qed
  from any unscaled show ?thesis by blast
qed

text \<open>A source state with \<open>G = 1\<close>: the copy without normalisation has \<open>G = 4 pi\<^sup>2\<close>.\<close>

theorem copy_sim_G_witness:
  "map_sum id sim_G (copy_sim zero_solver (sim_of [body 1 0 0, body 0 1 0, body 0 2 0]) [1, 2] False)
     = Inr (4 * pi ^ 2) \<and>
   sim_G (sim_of [body 1 0 0, body 0 1 0, body 0 2 0]) = 1"
proof -
  let ?s = "sim_of [body 1 0 0, body 0 1 0, body 0 2 0]"
  have ne: "particles ?s \<noteq> []" by (simp add: sim_of_def)
  from copy_sim_G [of zero_solver ?s "[1, 2]"] ne
  obtain c where "copy_sim zero_solver ?s [1, 2] False = Inr c" and "sim_G c = 4 * pi ^ 2"
    by blast
  then have "map_sum id sim_G (copy_sim zero_solver ?s [1, 2] False) = Inr (4 * pi ^ 2)"
    by simp
  moreover have "sim_G ?s = 1" by (simp add: sim_of_def new_simulation_def)
  ultimately show ?thesis by blast
qed

lemma copy_loop_unscaled_cong:
  "(\<And>i. i \<in> set is \<Longrightarrow> (i \<in> set A) = (i \<in> set B)) \<Longrightarrow>
   copy_loop_unscaled kep ps A is c = copy_loop_unscaled kep ps B is c"
  by (induction "is" arbitrary: c) simp_all

lemma add_mass_particles: "particles (add_mass c m') = particles c @ [zero_particle\<lparr>p_m := m'\<rparr>]"
  by (simp add: add_mass_def)

lemma copy_loop_unscaled_prefix:
  "\<exists>added. particles (copy_loop_unscaled kep ps p_inds is c) = particles c @ added"
proof (induction "is" arbitrary: c)
  case Nil
  show ?case by simp
next
  case (Cons i rest)
  show ?case
  proof (cases "i \<in> set p_inds")
    case True
    from Cons.IH [of "add_orbit kep c (p_m (ps ! i)) (p_a (ps ! i)) (p_e (ps ! i))
                (p_inc (ps ! i)) (p_pomega (ps ! i)) (p_Omega (ps ! i)) (p_theta (ps ! i))"]
    show ?thesis using True by (auto simp add: add_orbit_def)
  next
    case False
    with Cons.IH [of c] show ?thesis by simp
  qed
qed

lemma copy_sim_selection:
  assumes "particles sim \<noteq> []"
  shows "(\<exists>c. copy_sim kep sim p_inds False = Inr c \<and>
             p_m (particles c ! 0) = p_m (particles sim ! 0) \<and>
             map add_args (drop 1 (particles c)) =
               map (\<lambda>i. add_args (particles sim ! i))
                 (filter (\<lambda>i. i \<in> set p_inds) [1..<length (particles sim)])) \<and>
         copy_sim kep sim p_inds False =
           copy_sim kep sim (filter (\<lambda>i. 0 < i \<and> i < length (particles sim)) p_inds) False"
proof -
  let ?start = "add_mass (new_simulation\<lparr>sim_G := 4 * pi ^ 2\<rparr>) (p_m (particles sim ! 0))"
  let ?res = "copy_loop_unscaled kep (particles sim) p_inds [1..<length (particles sim)] ?start"
  have run: "copy_sim kep sim p_inds False = Inr ?res" by (rule copy_sim_unscaled [OF assms])
  have c0: "particles ?start = [zero_particle\<lparr>p_m := p_m (particles sim ! 0)\<rparr>]"
    by (simp add: add_mass_particles new_simulation_def)
  obtain added where added: "particles ?res = particles ?start @ added"
    using copy_loop_unscaled_prefix by blast
  have star: "p_m (particles ?res ! 0) = p_m (particles sim ! 0)"
    unfolding added c0 by simp
  have full: "map add_args (particles ?res) =
          map add_args (particles ?start) @
          map (\<lambda>i. add_args (particles sim ! i))
            (filter (\<lambda>i. i \<in> set p_inds) [1..<length (particles sim)])"
    by (rule copy_loop_unscaled_args)
  have "map add_args (drop 1 (particles ?res)) = drop 1 (map add_args (particles ?res))"
    by (simp only: drop_map)
  also have "\<dots> = map (\<lambda>i. add_args (particles sim ! i))
                 (filter (\<lambda>i. i \<in> set p_inds) [1..<length (particles sim)])"
    unfolding full c0 by simp
  finally have rest: "map add_args (drop 1 (particles ?res)) =
               map (\<lambda>i. add_args (particles sim ! i))
                 (filter (\<lambda>i. i \<in> set p_inds) [1..<length (particles sim)])" .
  have same: "copy_sim kep sim p_inds False =
           copy_sim kep sim (filter (\<lambda>i. 0 < i \<and> i < length (particles sim)) p_inds) False"
    unfolding copy_sim_unscaled [OF assms]
    by (simp, rule copy_loop_unscaled_cong) auto
  from run star rest same show ?thesis by simp
qed











subsection \<open>The order of \<^verbatim>\<open>np.argsort\<close> and the reordering loop\<close>

lemma np_argsort_length [simp]: "length (np_argsort xs) = length xs"
  by (simp add: np_argsort_def)

lemma np_argsort_mset: "mset (np_argsort xs) = mset [0..<length xs]"
proof -
  have z: "map snd (zip xs [0..<length xs]) = [0..<length xs]" by simp
  have "mset (np_argsort xs) = image_mset snd (mset (sort_key fst (zip xs [0..<length xs])))"
    by (simp only: np_argsort_def mset_map)
  also have "\<dots> = image_mset snd (mset (zip xs [0..<length xs]))" by (simp only: mset_sort)
  also have "\<dots> = mset (map snd (zip xs [0..<length xs]))" by (simp only: mset_map)
  also have "\<dots> = mset [0..<length xs]" by (simp only: z)
  finally show ?thesis .
qed

lemma np_argsort_set: "set (np_argsort xs) = {0..<length xs}"
  using np_argsort_mset [of xs] by (metis set_mset_mset set_upt)

lemma zip_upt_nth: "(v, i) \<in> set (zip xs [0..<length xs]) \<Longrightarrow> v = xs ! i"
  by (auto simp add: set_zip)

lemma np_argsort_values:
  "map (\<lambda>i. xs ! i) (np_argsort xs) = map fst (sort_key fst (zip xs [0..<length xs]))"
proof -
  have "\<forall>vi\<in>set (sort_key fst (zip xs [0..<length xs])). xs ! snd vi = fst vi"
    using zip_upt_nth [of _ _ xs] by auto
  then show ?thesis
    by (simp add: np_argsort_def comp_def)
qed

lemma np_argsort_sorted: "sorted (map (\<lambda>i. xs ! i) (np_argsort xs))"
  unfolding np_argsort_values by (rule sorted_sort_key)

lemma replace_p_ok:
  "0 < i \<Longrightarrow> i < length (particles s) \<Longrightarrow>
   replace_p s i q = Inr (s\<lparr>particles := (particles s)[i := assign_elements (particles s ! i) q]\<rparr>)"
  by (simp add: replace_p_def)

lemma reorder_loop_result:
  assumes "\<forall>ind\<in>set inds. ind + 1 < length ps"
      and "inds \<noteq> [] \<longrightarrow> k + length inds < length (particles s)"
  shows "\<exists>s'. reorder_loop ps (zip [k..<k + length inds] inds) s = Inr s' \<and>
              length (particles s') = length (particles s) \<and>
              s'\<lparr>particles := particles s\<rparr> = s \<and>
              (\<forall>j<length inds. particles s' ! (k + 1 + j) =
                  assign_elements (particles s ! (k + 1 + j)) (ps ! (inds ! j + 1))) \<and>
              (\<forall>p\<le>k. particles s' ! p = particles s ! p)"
  using assms
proof (induction inds arbitrary: k s)
  case Nil
  show ?case by simp
next
  case (Cons ind rest)
  let ?s1 = "s\<lparr>particles := (particles s)[k + 1 := assign_elements (particles s ! (k + 1)) (ps ! (ind + 1))]\<rparr>"
  have z: "zip [k..<k + length (ind # rest)] (ind # rest) =
             (k, ind) # zip [Suc k..<Suc k + length rest] rest"
    by (simp add: upt_conv_Cons del: upt_Suc)
  have inb: "ind + 1 < length ps" using Cons.prems(1) by simp
  have kb: "k + 1 < length (particles s)" using Cons.prems(2) by simp
  have rp: "replace_p s (k + 1) (ps ! (ind + 1)) = Inr ?s1"
    using kb by (simp add: replace_p_def)
  have p1: "\<forall>ind\<in>set rest. ind + 1 < length ps" using Cons.prems(1) by simp
  have p2: "rest \<noteq> [] \<longrightarrow> Suc k + length rest < length (particles ?s1)"
    using Cons.prems(2) by simp
  from Cons.IH [OF p1 p2] obtain s' where
    run: "reorder_loop ps (zip [Suc k..<Suc k + length rest] rest) ?s1 = Inr s'" and
    len: "length (particles s') = length (particles ?s1)" and
    frame: "s'\<lparr>particles := particles ?s1\<rparr> = ?s1" and
    vals: "\<forall>j<length rest. particles s' ! (Suc k + 1 + j) =
              assign_elements (particles ?s1 ! (Suc k + 1 + j)) (ps ! (rest ! j + 1))" and
    low: "\<forall>p\<le>Suc k. particles s' ! p = particles ?s1 ! p"
    by blast
  have run': "reorder_loop ps (zip [k..<k + length (ind # rest)] (ind # rest)) s = Inr s'"
    unfolding z using inb rp run by simp
  have len': "length (particles s') = length (particles s)" using len by simp
  have frame': "s'\<lparr>particles := particles s\<rparr> = s"
  proof -
    have "(s'\<lparr>particles := particles ?s1\<rparr>)\<lparr>particles := particles s\<rparr> = ?s1\<lparr>particles := particles s\<rparr>"
      by (simp only: frame)
    then show ?thesis by simp
  qed
  have vals': "\<forall>j<length (ind # rest). particles s' ! (k + 1 + j) =
                  assign_elements (particles s ! (k + 1 + j)) (ps ! ((ind # rest) ! j + 1))"
  proof (intro allI impI)
    fix j assume j: "j < length (ind # rest)"
    show "particles s' ! (k + 1 + j) =
            assign_elements (particles s ! (k + 1 + j)) (ps ! ((ind # rest) ! j + 1))"
    proof (cases j)
      case 0
      have "particles s' ! (k + 1) = particles ?s1 ! (k + 1)" using low by simp
      with kb 0 show ?thesis by simp
    next
      case (Suc j')
      with j have j': "j' < length rest" by simp
      from vals j' have "particles s' ! (Suc k + 1 + j') =
              assign_elements (particles ?s1 ! (Suc k + 1 + j')) (ps ! (rest ! j' + 1))" by blast
      with Suc show ?thesis by simp
    qed
  qed
  have low': "\<forall>p\<le>k. particles s' ! p = particles s ! p"
  proof (intro allI impI)
    fix p assume "p \<le> k"
    then have "particles s' ! p = particles ?s1 ! p" using low by simp
    with \<open>p \<le> k\<close> show "particles s' ! p = particles s ! p" by simp
  qed
  from run' len' frame' vals' low' show ?case by blast
qed

lemma reorder_particles_result:
  "\<exists>s'. reorder_particles s = Inr s' \<and>
         length (particles s') = length (particles s) \<and>
         s'\<lparr>particles := particles s\<rparr> = s \<and>
         (particles s \<noteq> [] \<longrightarrow> particles s' ! 0 = particles s ! 0) \<and>
         (\<forall>j<length (particles s) - 1. particles s' ! (j + 1) =
            assign_elements (particles s ! (j + 1))
              (particles s ! (np_argsort (map p_a (drop 1 (particles s))) ! j + 1)))"
proof -
  let ?ps = "particles s"
  let ?inds = "np_argsort (map p_a (drop 1 ?ps))"
  have len: "length ?inds = length ?ps - 1" by simp
  have a1: "\<forall>ind\<in>set ?inds. ind + 1 < length ?ps"
    using np_argsort_set [of "map p_a (drop 1 ?ps)"] by auto
  have a2: "?inds \<noteq> [] \<longrightarrow> 0 + length ?inds < length (particles s)"
    by (cases ?ps) (simp_all add: np_argsort_def)
  from reorder_loop_result [OF a1 a2] obtain s' where
    run: "reorder_loop ?ps (zip [0..<0 + length ?inds] ?inds) s = Inr s'" and
    l: "length (particles s') = length (particles s)" and
    frame: "s'\<lparr>particles := particles s\<rparr> = s" and
    vals: "\<forall>j<length ?inds. particles s' ! (0 + 1 + j) =
              assign_elements (particles s ! (0 + 1 + j)) (?ps ! (?inds ! j + 1))" and
    low: "\<forall>p\<le>0. particles s' ! p = particles s ! p"
    by blast
  have "reorder_particles s = Inr s'"
    using run by (simp add: reorder_particles_def Let_def)
  moreover have "\<forall>j<length (particles s) - 1. particles s' ! (j + 1) =
            assign_elements (particles s ! (j + 1)) (particles s ! (?inds ! j + 1))"
    using vals len by simp
  moreover have "particles s' ! 0 = particles s ! 0" using low by simp
  ultimately show ?thesis using l frame by blast
qed

lemma reorder_particles_values:
  assumes run: "reorder_particles s = Inr s'"
      and f: "\<And>p q. f (assign_elements p q) = f q"
  shows "map f (drop 1 (particles s')) =
           map (\<lambda>i. map f (drop 1 (particles s)) ! i) (np_argsort (map p_a (drop 1 (particles s))))"
proof -
  let ?ps = "particles s"
  let ?inds = "np_argsort (map p_a (drop 1 ?ps))"
  from reorder_particles_result [of s] run have
    l: "length (particles s') = length ?ps" and
    vals: "\<forall>j<length ?ps - 1. particles s' ! (j + 1) =
            assign_elements (?ps ! (j + 1)) (?ps ! (?inds ! j + 1))"
    by auto
  show ?thesis
  proof (rule nth_equalityI)
    show "length (map f (drop 1 (particles s'))) =
          length (map (\<lambda>i. map f (drop 1 ?ps) ! i) ?inds)"
      using l by simp
  next
    fix j assume "j < length (map f (drop 1 (particles s')))"
    then have j: "j < length ?ps - 1" using l by simp
    have "?inds ! j \<in> set ?inds" using j by simp
    then have ib: "?inds ! j < length ?ps - 1"
      using np_argsort_set [of "map p_a (drop 1 ?ps)"] by simp
    have "map f (drop 1 (particles s')) ! j = f (particles s' ! (j + 1))"
      using j l by simp
    also have "\<dots> = f (?ps ! (?inds ! j + 1))"
      using vals j by (simp add: f)
    also have "\<dots> = map f (drop 1 ?ps) ! (?inds ! j)"
      using ib by simp
    finally show "map f (drop 1 (particles s')) ! j =
                  map (\<lambda>i. map f (drop 1 ?ps) ! i) ?inds ! j"
      using j by simp
  qed
qed

lemma reorder_particles_sorted:
  assumes "reorder_particles s = Inr s'"
  shows "sorted (map p_a (drop 1 (particles s')))"
proof -
  have "map p_a (drop 1 (particles s')) =
          map (\<lambda>i. map p_a (drop 1 (particles s)) ! i) (np_argsort (map p_a (drop 1 (particles s))))"
    by (rule reorder_particles_values [OF assms]) (simp add: assign_elements_def)
  then show ?thesis by (simp only: np_argsort_sorted)
qed

subsection \<open>Reinsertion\<close>

lemmas run_defs = replace_trio_def get_a_def rescale_new_state_def splice_trio_def replace_p_def
  sim_remove_def unalign_particles_def rotate_particle_def npEulerAnglesTransform_def p_xyz_def
  p_vxyz_def reorder_particles_def np_argsort_def assign_elements_def sim_of_def body_def
  zero_particle_def new_simulation_def Let_def

lemma get_a_ok:
  "0 < i \<Longrightarrow> i < length (particles s) \<Longrightarrow> get_a s i = Inr (p_a (particles s ! i))"
  by (simp add: get_a_def)

lemma sim_remove_ok:
  "i < length (particles s) \<Longrightarrow>
   sim_remove s i = Inr (s\<lparr>particles := take i (particles s) @ drop (Suc i) (particles s)\<rparr>)"
  by (simp add: sim_remove_def)

lemma frame_fields:
  "s'\<lparr>particles := X\<rparr> = s \<Longrightarrow>
   sim_G s' = sim_G s \<and> sim_dt s' = sim_dt s \<and> sim_integrator s' = sim_integrator s"
  by (cases s', cases s) simp

lemma replace_trio_run:
  assumes "0 < ind1" and "ind1 < length (particles original_sim)"
  shows "replace_trio original_sim (ind1, ind2, ind3) new_state_sim theta1 theta2 =
           (bind_err
              (splice_trio original_sim ind1 ind2 ind3
                 (particles (rescale_new_state (p_a (particles original_sim ! ind1)) new_state_sim)))
              (\<lambda>sim_copy. reorder_particles (unalign_particles theta1 theta2 sim_copy)),
            rescale_new_state (p_a (particles original_sim ! ind1)) new_state_sim)"
  using assms by (simp add: replace_trio_def get_a_ok Let_def)

lemma rescale_new_state_length [simp]:
  "length (particles (rescale_new_state c s)) = length (particles s)"
  by (cases "particles s") (simp_all add: rescale_new_state_def)



lemma rescale_new_state_frame:
  "(rescale_new_state c s)\<lparr>particles := particles s\<rparr> = s"
  by (simp add: rescale_new_state_def)



lemma splice_trio_none:
  assumes "length new_ps = 1" and "0 < ind1" and "ind1 < ind2" and "ind2 < ind3"
      and "ind3 < length (particles original_sim)"
  shows "\<exists>c. splice_trio original_sim ind1 ind2 ind3 new_ps = Inr c \<and>
             length (particles c) = length (particles original_sim) - 3 \<and>
             particles c ! 0 = particles original_sim ! 0 \<and>
             c\<lparr>particles := particles original_sim\<rparr> = original_sim"
proof -
  let ?ps = "particles original_sim"
  let ?s1 = "original_sim\<lparr>particles := take ind3 ?ps @ drop (Suc ind3) ?ps\<rparr>"
  let ?s2 = "?s1\<lparr>particles := take ind2 (particles ?s1) @ drop (Suc ind2) (particles ?s1)\<rparr>"
  let ?s3 = "?s2\<lparr>particles := take ind1 (particles ?s2) @ drop (Suc ind1) (particles ?s2)\<rparr>"
  have r1: "sim_remove original_sim ind3 = Inr ?s1" using assms by (simp add: sim_remove_ok)
  have l1: "length (particles ?s1) = length ?ps - 1" using assms by simp
  have r2: "sim_remove ?s1 ind2 = Inr ?s2"
    by (rule sim_remove_ok) (use assms l1 in simp)
  have l2: "length (particles ?s2) = length ?ps - 2" using assms by simp
  have r3: "sim_remove ?s2 ind1 = Inr ?s3"
    by (rule sim_remove_ok) (use assms l2 in simp)
  have l3: "length (particles ?s3) = length ?ps - 3" using assms by simp
  have run: "splice_trio original_sim ind1 ind2 ind3 new_ps = Inr ?s3"
    using assms(1) r1 r2 r3 by (simp add: splice_trio_def)
  have z: "particles ?s3 ! 0 = ?ps ! 0"
    using assms by (simp add: nth_append)
  have fr: "?s3\<lparr>particles := ?ps\<rparr> = original_sim" by simp
  from run l3 z fr show ?thesis by blast
qed

lemma unalign_particles_length [simp]:
  "length (particles (unalign_particles theta1 theta2 s)) = length (particles s)"
  by (simp add: unalign_particles_def)

lemma unalign_particles_frame:
  "(unalign_particles theta1 theta2 s)\<lparr>particles := particles s\<rparr> = s"
  by (simp add: unalign_particles_def)

lemma rotate_particle_elements [simp]:
  "p_a (rotate_particle Omega I omega p) = p_a p"
  "p_m (rotate_particle Omega I omega p) = p_m p"
  by (simp_all add: rotate_particle_def split: prod.splits)

text \<open>
  Claim C8: when the reduced state holds the dominant body only, reinsertion with an
  ascending trio of non-dominant indices raises nothing; the three removals, from the
  highest index down, all find their index, and the result has three particles fewer,
  with the dominant body (rotated back) at index 0. For an original state of a dominant
  body and three planets the result holds the dominant body alone.
\<close>

theorem replace_trio_no_survivor:
  assumes "length (particles new_state_sim) = 1"
      and "0 < ind1" and "ind1 < ind2" and "ind2 < ind3"
      and "ind3 < length (particles original_sim)"
  shows "\<exists>res. fst (replace_trio original_sim (ind1, ind2, ind3) new_state_sim theta1 theta2) = Inr res \<and>
           length (particles res) = length (particles original_sim) - 3 \<and>
           particles res ! 0 = rotate_particle (- theta1) (- theta2) 0 (particles original_sim ! 0) \<and>
           p_m (particles res ! 0) = p_m (particles original_sim ! 0) \<and>
           (length (particles original_sim) = 4 \<longrightarrow>
              res = original_sim
                \<lparr>particles := [rotate_particle (- theta1) (- theta2) 0 (particles original_sim ! 0)]\<rparr>)"
proof -
  let ?ps = "particles original_sim"
  let ?new = "rescale_new_state (p_a (?ps ! ind1)) new_state_sim"
  have i1: "ind1 < length ?ps" using assms by simp
  have ln: "length (particles ?new) = 1" using assms(1) by simp
  from splice_trio_none [OF ln assms(2-5)] obtain c where
    c: "splice_trio original_sim ind1 ind2 ind3 (particles ?new) = Inr c" and
    cl: "length (particles c) = length ?ps - 3" and
    c0: "particles c ! 0 = ?ps ! 0" and
    cf: "c\<lparr>particles := ?ps\<rparr> = original_sim"
    by blast
  let ?u = "unalign_particles theta1 theta2 c"
  have cne: "particles c \<noteq> []" using cl assms by auto
  have u0: "particles ?u ! 0 = rotate_particle (- theta1) (- theta2) 0 (?ps ! 0)"
    using cne c0 by (simp add: unalign_particles_def)
  from reorder_particles_result [of ?u] obtain res where
    r: "reorder_particles ?u = Inr res" and
    rl: "length (particles res) = length (particles ?u)" and
    rf: "res\<lparr>particles := particles ?u\<rparr> = ?u" and
    r0: "particles ?u \<noteq> [] \<longrightarrow> particles res ! 0 = particles ?u ! 0"
    by blast
  have run: "fst (replace_trio original_sim (ind1, ind2, ind3) new_state_sim theta1 theta2) = Inr res"
    using c r by (simp add: replace_trio_run [OF assms(2) i1])
  have len: "length (particles res) = length ?ps - 3" using rl cl by simp
  have une: "particles ?u \<noteq> []" using cne by (simp add: unalign_particles_def)
  from r0 une have "particles res ! 0 = particles ?u ! 0" by blast
  then have first: "particles res ! 0 = rotate_particle (- theta1) (- theta2) 0 (?ps ! 0)"
    by (simp only: u0)
  have mass: "p_m (particles res ! 0) = p_m (?ps ! 0)" unfolding first by simp
  have fields: "sim_G res = sim_G original_sim \<and> sim_dt res = sim_dt original_sim \<and>
                sim_integrator res = sim_integrator original_sim"
    using frame_fields [OF rf] frame_fields [OF unalign_particles_frame [where s = c]]
          frame_fields [OF cf] by simp
  have only: "length ?ps = 4 \<longrightarrow>
              res = original_sim\<lparr>particles := [rotate_particle (- theta1) (- theta2) 0 (?ps ! 0)]\<rparr>"
  proof
    assume "length ?ps = 4"
    with len have "length (particles res) = 1" by simp
    then have "particles res = [particles res ! 0]"
      by (cases "particles res") simp_all
    with first have "particles res = [rotate_particle (- theta1) (- theta2) 0 (?ps ! 0)]" by simp
    with fields show "res = original_sim\<lparr>particles := [rotate_particle (- theta1) (- theta2) 0 (?ps ! 0)]\<rparr>"
      by (cases res, cases original_sim) simp
  qed
  from run len first mass only show ?thesis by blast
qed

text \<open>A dominant body and three planets, all three merged away.\<close>

theorem replace_trio_no_survivor_witness:
  "fst (replace_trio (sim_of [body 1 0 0, body 0 1 0, body 0 2 0, body 0 3 0]) (1, 2, 3)
          (sim_of [body 1 0 0]) 0 0)
     = Inr (sim_of [body 1 0 0])"
proof -
  let ?o = "sim_of [body 1 0 0, body 0 1 0, body 0 2 0, body 0 3 0]"
  let ?n = "sim_of [body 1 0 0]"
  have h1: "length (particles ?n) = 1" by (simp add: sim_of_def)
  have h2: "0 < (1::nat)" and h3: "(1::nat) < 2" and h4: "(2::nat) < 3" by simp_all
  have h5: "3 < length (particles ?o)" by (simp add: sim_of_def)
  have l4: "length (particles ?o) = 4" by (simp add: sim_of_def)
  have rot: "?o\<lparr>particles := [rotate_particle (- 0) (- 0) 0 (particles ?o ! 0)]\<rparr> = ?n"
    by (simp add: sim_of_def body_def rotate_particle_def npEulerAnglesTransform_def p_xyz_def
          p_vxyz_def zero_particle_def)
  from replace_trio_no_survivor [OF h1 h2 h3 h4 h5, of 0 0] l4
  obtain res where "fst (replace_trio ?o (1, 2, 3) ?n 0 0) = Inr res"
    and "res = ?o\<lparr>particles := [rotate_particle (- 0) (- 0) 0 (particles ?o ! 0)]\<rparr>"
    by blast
  then show ?thesis by (simp only: rot)
qed

lemma nth_map_drop1:
  "0 < i \<Longrightarrow> i < length xs \<Longrightarrow> map f (drop 1 xs) ! (i - 1) = f (xs ! i)"
  by (cases xs; cases i) simp_all

text \<open>
  Claim C5, as stated: in every reinsertion result the non-dominant bodies are in
  strictly ascending semi-major axis, \<open>a\<^sub>i < a\<^sub>j\<close> for \<open>i < j\<close>.

  The final loop sorts, and sorting cannot separate equal keys: two bodies with the same
  semi-major axis stay next to each other with \<open>a\<^sub>i = a\<^sub>j\<close>. What holds is the order
  \<open>a\<^sub>i \<le> a\<^sub>j\<close>, whatever the reduced state, the trio and the angles are.
\<close>

theorem replace_trio_ascending:
  assumes "fst (replace_trio original_sim (ind1, ind2, ind3) new_state_sim theta1 theta2) = Inr res"
  shows "\<forall>i j. 0 < i \<and> i < j \<and> j < length (particles res) \<longrightarrow>
            p_a (particles res ! i) \<le> p_a (particles res ! j)"
proof -
  obtain a1 where a1: "get_a original_sim ind1 = Inr a1"
    using assms by (cases "get_a original_sim ind1") (simp_all add: replace_trio_def)
  let ?new = "rescale_new_state a1 new_state_sim"
  obtain c where c: "splice_trio original_sim ind1 ind2 ind3 (particles ?new) = Inr c"
    using assms a1
    by (cases "splice_trio original_sim ind1 ind2 ind3 (particles ?new)")
       (simp_all add: replace_trio_def Let_def)
  let ?u = "unalign_particles theta1 theta2 c"
  have r: "reorder_particles ?u = Inr res"
    using assms a1 c by (simp add: replace_trio_def Let_def)
  have srt: "sorted (map p_a (drop 1 (particles res)))"
    by (rule reorder_particles_sorted [OF r])
  show ?thesis
  proof (intro allI impI)
    fix i j assume h: "0 < i \<and> i < j \<and> j < length (particles res)"
    have lm: "length (map p_a (drop 1 (particles res))) = length (particles res) - 1" by simp
    from h have "i - 1 \<le> j - 1" by arith
    moreover from h have "j - 1 < length (map p_a (drop 1 (particles res)))"
      unfolding lm by arith
    ultimately have "map p_a (drop 1 (particles res)) ! (i - 1) \<le> map p_a (drop 1 (particles res)) ! (j - 1)"
      using srt by (simp only: sorted_nth_mono)
    moreover from h have "map p_a (drop 1 (particles res)) ! (i - 1) = p_a (particles res ! i)"
      by (intro nth_map_drop1) arith+
    moreover from h have "map p_a (drop 1 (particles res)) ! (j - 1) = p_a (particles res ! j)"
      by (intro nth_map_drop1) arith+
    ultimately show "p_a (particles res ! i) \<le> p_a (particles res ! j)" by simp
  qed
qed

text \<open>
  One survivor with \<open>a = 5\<close> replaces a trio inside an original state whose fourth planet
  has \<open>a = 4\<close>: the result is ordered 4, 5.
\<close>

theorem replace_trio_ascending_witness:
  "map_sum id (\<lambda>res. map p_a (drop 1 (particles res)))
     (fst (replace_trio
            (sim_of [body 1 0 0, body 0 1 0, body 0 2 0, body 0 3 0, body 0 4 0]) (1, 2, 3)
            (sim_of [body 1 0 0, body 0 5 0]) 0 0))
     = Inr [4, 5] \<and>
   map_sum id (\<lambda>res. p_a (particles res ! 1) \<le> p_a (particles res ! 2))
     (fst (replace_trio
            (sim_of [body 1 0 0, body 0 1 0, body 0 2 0, body 0 3 0, body 0 4 0]) (1, 2, 3)
            (sim_of [body 1 0 0, body 0 5 0]) 0 0))
     = Inr True"
proof -
  let ?o = "sim_of [body 1 0 0, body 0 1 0, body 0 2 0, body 0 3 0, body 0 4 0]"
  let ?n = "sim_of [body 1 0 0, body 0 5 0]"
  have "\<exists>res. fst (replace_trio ?o (1, 2, 3) ?n 0 0) = Inr res \<and>
          map p_a (drop 1 (particles res)) = [4, 5]"
    by (simp add: run_defs numeral_2_eq_2 numeral_3_eq_3 upt_rec)
  then obtain res where r: "fst (replace_trio ?o (1, 2, 3) ?n 0 0) = Inr res"
    and v: "map p_a (drop 1 (particles res)) = [4, 5]" by (elim exE conjE)
  from v have "length (drop 1 (particles res)) = 2" by (metis length_map length_Cons list.size(3) numeral_2_eq_2)
  then have l: "length (particles res) = 3" by simp
  from replace_trio_ascending [OF r] l
  have "p_a (particles res ! 1) \<le> p_a (particles res ! 2)" by simp
  with r v show ?thesis by simp
qed

text \<open>
  Two survivors with the same semi-major axis 2: the result holds 2, 2 in the slots 1 and
  2, and \<open>a\<^sub>1 < a\<^sub>2\<close> is false.
\<close>

theorem replace_trio_ascending_counterexample:
  "map_sum id (\<lambda>res. map p_a (drop 1 (particles res)))
     (fst (replace_trio
            (sim_of [body 1 0 0, body 0 1 0, body 0 2 0, body 0 3 0]) (1, 2, 3)
            (sim_of [body 1 0 0, body 0 2 0, body 0 2 0]) 0 0))
     = Inr [2, 2] \<and>
   map_sum id (\<lambda>res. p_a (particles res ! 1) < p_a (particles res ! 2))
     (fst (replace_trio
            (sim_of [body 1 0 0, body 0 1 0, body 0 2 0, body 0 3 0]) (1, 2, 3)
            (sim_of [body 1 0 0, body 0 2 0, body 0 2 0]) 0 0))
     = Inr False"
  by (simp add: run_defs numeral_2_eq_2 numeral_3_eq_3 upt_rec)

lemma filter_upt_trio:
  assumes "0 < i1" and "i1 < i2" and "i2 < i3" and "i3 < n"
  shows "filter (\<lambda>i. i \<in> set [i1, i2, i3]) [1..<n] = [i1, i2, i3]"
proof (rule sorted_distinct_set_unique)
  show "sorted (filter (\<lambda>i. i \<in> set [i1, i2, i3]) [1..<n])" by (rule sorted_wrt_filter) simp
  show "distinct (filter (\<lambda>i. i \<in> set [i1, i2, i3]) [1..<n])" by simp
  show "sorted [i1, i2, i3]" using assms by simp
  show "distinct [i1, i2, i3]" using assms by simp
  show "set (filter (\<lambda>i. i \<in> set [i1, i2, i3]) [1..<n]) = set [i1, i2, i3]"
    using assms by auto
qed

text \<open>
  Claim C1, as stated: extracting an ascending trio without normalisation and reinserting
  the unmodified reduced state reproduces the orbital elements of the three bodies and
  leaves the other bodies unchanged.

  The extraction does copy mass and elements of the three bodies unchanged, in order,
  behind a dominant body of the original mass. The reinsertion does not accept this
  state: it distinguishes reduced states of three, two and one particle (two, one and no
  survivor) and binds its result in these cases only, so for the four particles of an
  unmerged trio it raises \<^verbatim>\<open>UnboundLocalError\<close> and returns no state. The theorem
  states both facts.
\<close>

theorem extract_then_reinsert_unbound:
  assumes "0 < ind1" and "ind1 < ind2" and "ind2 < ind3" and "ind3 < length (particles sim)"
  shows "\<exists>c. copy_sim kep sim [ind1, ind2, ind3] False = Inr c \<and>
             length (particles c) = 4 \<and>
             p_m (particles c ! 0) = p_m (particles sim ! 0) \<and>
             map add_args (drop 1 (particles c)) =
               [add_args (particles sim ! ind1), add_args (particles sim ! ind2),
                add_args (particles sim ! ind3)] \<and>
             fst (replace_trio sim (ind1, ind2, ind3) c theta1 theta2) = Inl UnboundLocalError"
proof -
  have ne: "particles sim \<noteq> []" using assms by auto
  from copy_sim_selection [OF ne, of kep "[ind1, ind2, ind3]"] obtain c where
    c: "copy_sim kep sim [ind1, ind2, ind3] False = Inr c" and
    m: "p_m (particles c ! 0) = p_m (particles sim ! 0)" and
    args: "map add_args (drop 1 (particles c)) =
               map (\<lambda>i. add_args (particles sim ! i))
                 (filter (\<lambda>i. i \<in> set [ind1, ind2, ind3]) [1..<length (particles sim)])"
    by blast
  have args': "map add_args (drop 1 (particles c)) =
               [add_args (particles sim ! ind1), add_args (particles sim ! ind2),
                add_args (particles sim ! ind3)]"
    unfolding args filter_upt_trio [OF assms] by simp
  have "length (map add_args (drop 1 (particles c))) = 3" unfolding args' by simp
  then have l4: "length (particles c) = 4" by simp
  have i1: "ind1 < length (particles sim)" using assms by simp
  have "splice_trio sim ind1 ind2 ind3
          (particles (rescale_new_state (p_a (particles sim ! ind1)) c)) = Inl UnboundLocalError"
    using l4 by (simp add: splice_trio_def)
  then have "fst (replace_trio sim (ind1, ind2, ind3) c theta1 theta2) = Inl UnboundLocalError"
    by (simp add: replace_trio_run [OF assms(1) i1])
  with c l4 m args' show ?thesis by (intro exI [of _ c] conjI)
qed

text \<open>The trio \<open>(1, 2, 4)\<close> of a state with four planets.\<close>

theorem extract_then_reinsert_unbound_witness:
  "map_sum id (\<lambda>c. (map add_args (drop 1 (particles c)),
                     fst (replace_trio
                            (sim_of [body 1 0 0, body 0 1 0, body 0 2 0, body 0 3 0, body 0 4 0])
                            (1, 2, 4) c 0 0)))
     (copy_sim zero_solver (sim_of [body 1 0 0, body 0 1 0, body 0 2 0, body 0 3 0, body 0 4 0])
        [1, 2, 4] False)
   = Inr ([(0, 1, 0, 0, 0, 0, 0), (0, 2, 0, 0, 0, 0, 0), (0, 4, 0, 0, 0, 0, 0)],
          Inl UnboundLocalError)"
proof -
  let ?s = "sim_of [body 1 0 0, body 0 1 0, body 0 2 0, body 0 3 0, body 0 4 0]"
  have h1: "0 < (1::nat)" and h2: "(1::nat) < 2" and h3: "(2::nat) < 4" by simp_all
  have h4: "4 < length (particles ?s)" by (simp add: sim_of_def)
  have v: "[add_args (particles ?s ! 1), add_args (particles ?s ! 2), add_args (particles ?s ! 4)]
             = [(0, 1, 0, 0, 0, 0, 0), (0, 2, 0, 0, 0, 0, 0), (0, 4, 0, 0, 0, 0, 0)]"
    by (simp add: sim_of_def body_def add_args_def zero_particle_def)
  from extract_then_reinsert_unbound [OF h1 h2 h3 h4, of zero_solver 0 0]
  obtain c where "copy_sim zero_solver ?s [1, 2, 4] False = Inr c"
    and "map add_args (drop 1 (particles c)) =
           [add_args (particles ?s ! 1), add_args (particles ?s ! 2), add_args (particles ?s ! 4)]"
    and "fst (replace_trio ?s (1, 2, 4) c 0 0) = Inl UnboundLocalError"
    by (elim exE conjE)
  then show ?thesis by (simp only: v map_sum.simps id_apply)
qed

text \<open>
  A dominant body and three planets, the trio \<open>(1, 2, 3)\<close>, no integration step: the
  extraction returns a state, and reinserting it raises instead of returning the original
  elements.
\<close>

theorem reinsertion_identity_counterexample:
  "map_sum id (\<lambda>c. fst (replace_trio
                            (sim_of [body 1 0 0, body 0 1 0, body 0 2 0, body 0 3 0])
                            (1, 2, 3) c 0 0))
     (copy_sim zero_solver (sim_of [body 1 0 0, body 0 1 0, body 0 2 0, body 0 3 0])
        [1, 2, 3] False)
   = Inr (Inl UnboundLocalError)"
  by (simp add: run_defs copy_sim_def add_mass_def add_orbit_def zero_solver_def
        numeral_2_eq_2 numeral_3_eq_3 upt_rec)

subsection \<open>Merger\<close>

lemma pow_third_root: "0 \<le> x \<Longrightarrow> pow_third x = Inr (root 3 x)"
proof (cases "x = 0")
  case True
  then show ?thesis by (simp add: pow_third_def)
next
  case False
  assume "0 \<le> x"
  with False have "0 < x" by simp
  then have "root 3 x = x powr (1 / 3)"
    using root_powr_inverse [of 3 x] by simp
  with \<open>0 < x\<close> show ?thesis by (simp add: pow_third_def)
qed

lemma root3_nine_bounds: "2.0800 < root 3 9 \<and> root 3 9 < (2.0802::real)"
proof -
  have lo: "root 3 ((2.0800::real) ^ 3) = 2.0800" by (rule real_root_pos2) simp_all
  have hi: "root 3 ((2.0802::real) ^ 3) = 2.0802" by (rule real_root_pos2) simp_all
  have "root 3 ((2.0800::real) ^ 3) < root 3 9"
    by (subst real_root_less_iff) (simp_all add: power3_eq_cube)
  moreover have "root 3 9 < root 3 ((2.0802::real) ^ 3)"
    by (subst real_root_less_iff) (simp_all add: power3_eq_cube)
  ultimately show ?thesis unfolding lo hi by simp
qed

text \<open>
  Claim C2, as stated: for every pair of colliding bodies the merger leaves one body with
  the summed mass, the summed momentum, the mass-weighted mean position and velocity,
  and the radius \<open>(r\<^sub>i\<^sup>3 + r\<^sub>j\<^sup>3)\<^sup>1\<^sup>/\<^sup>3\<close>.

  The mean divides by the total mass, so a pair whose masses sum to zero (two massless
  bodies) raises \<^verbatim>\<open>ZeroDivisionError\<close> and leaves no merged body. For every pair with
  non-zero total mass and non-negative radii the claim holds: the body at index \<open>i\<close> is
  the merged one, the stored state of every other slot is untouched, and the returned
  directive 2 tells the integrator to remove the body at index \<open>j\<close>.
\<close>

theorem perfect_merge_conserves:
  assumes i: "i < length (particles sim)" and j: "j < length (particles sim)"
      and mass: "p_m (particles sim ! i) + p_m (particles sim ! j) \<noteq> 0"
      and ri: "0 \<le> p_r (particles sim ! i)" and rj: "0 \<le> p_r (particles sim ! j)"
  shows "\<exists>sim'. perfect_merge sim i j = Inr (sim', 2) \<and>
           length (particles sim') = length (particles sim) \<and>
           (\<forall>k. k \<noteq> i \<and> k < length (particles sim) \<longrightarrow>
              stored_state (particles sim' ! k) = stored_state (particles sim ! k)) \<and>
           p_m (particles sim' ! i) = p_m (particles sim ! i) + p_m (particles sim ! j) \<and>
           p_m (particles sim' ! i) * p_vx (particles sim' ! i) =
             p_m (particles sim ! i) * p_vx (particles sim ! i) +
             p_m (particles sim ! j) * p_vx (particles sim ! j) \<and>
           p_m (particles sim' ! i) * p_vy (particles sim' ! i) =
             p_m (particles sim ! i) * p_vy (particles sim ! i) +
             p_m (particles sim ! j) * p_vy (particles sim ! j) \<and>
           p_m (particles sim' ! i) * p_vz (particles sim' ! i) =
             p_m (particles sim ! i) * p_vz (particles sim ! i) +
             p_m (particles sim ! j) * p_vz (particles sim ! j) \<and>
           p_x (particles sim' ! i) =
             (p_m (particles sim ! i) * p_x (particles sim ! i) +
              p_m (particles sim ! j) * p_x (particles sim ! j)) /
             (p_m (particles sim ! i) + p_m (particles sim ! j)) \<and>
           p_y (particles sim' ! i) =
             (p_m (particles sim ! i) * p_y (particles sim ! i) +
              p_m (particles sim ! j) * p_y (particles sim ! j)) /
             (p_m (particles sim ! i) + p_m (particles sim ! j)) \<and>
           p_z (particles sim' ! i) =
             (p_m (particles sim ! i) * p_z (particles sim ! i) +
              p_m (particles sim ! j) * p_z (particles sim ! j)) /
             (p_m (particles sim ! i) + p_m (particles sim ! j)) \<and>
           p_vx (particles sim' ! i) =
             (p_m (particles sim ! i) * p_vx (particles sim ! i) +
              p_m (particles sim ! j) * p_vx (particles sim ! j)) /
             (p_m (particles sim ! i) + p_m (particles sim ! j)) \<and>
           p_vy (particles sim' ! i) =
             (p_m (particles sim ! i) * p_vy (particles sim ! i) +
              p_m (particles sim ! j) * p_vy (particles sim ! j)) /
             (p_m (particles sim ! i) + p_m (particles sim ! j)) \<and>
           p_vz (particles sim' ! i) =
             (p_m (particles sim ! i) * p_vz (particles sim ! i) +
              p_m (particles sim ! j) * p_vz (particles sim ! j)) /
             (p_m (particles sim ! i) + p_m (particles sim ! j)) \<and>
           p_r (particles sim' ! i) =
             root 3 ((p_r (particles sim ! i)) ^ 3 + (p_r (particles sim ! j)) ^ 3)"
proof -
  let ?ps = "particles sim"
  let ?M = "p_m (?ps ! i) + p_m (?ps ! j)"
  let ?sum = "particle_add (particle_mul (?ps ! i) (p_m (?ps ! i))) (particle_mul (?ps ! j) (p_m (?ps ! j)))"
  let ?R = "(p_r (?ps ! i)) ^ 3 + (p_r (?ps ! j)) ^ 3"
  let ?q = "(particle_mul ?sum (1 / ?M))\<lparr>p_m := ?M, p_r := root 3 ?R\<rparr>"
  let ?sim' = "sim\<lparr>particles := ?ps[i := ?q]\<rparr>"
  have d: "particle_div ?sum ?M = Inr (particle_mul ?sum (1 / ?M))"
    using mass by (simp add: particle_div_def)
  have "0 \<le> ?R" using ri rj by simp
  then have r: "pow_third ?R = Inr (root 3 ?R)" by (rule pow_third_root)
  have run: "perfect_merge sim i j = Inr (?sim', 2)"
    unfolding perfect_merge_def Let_def d r using i j by simp
  have q: "particles ?sim' ! i = ?q" using i by simp
  have len: "length (particles ?sim') = length ?ps" by simp
  have others: "\<forall>k. k \<noteq> i \<and> k < length ?ps \<longrightarrow>
                  stored_state (particles ?sim' ! k) = stored_state (?ps ! k)" by simp
  have m: "p_m ?q = ?M" by simp
  have rr: "p_r ?q = root 3 ?R" by simp
  have vx: "p_m ?q * p_vx ?q = p_m (?ps ! i) * p_vx (?ps ! i) + p_m (?ps ! j) * p_vx (?ps ! j)"
    using mass by (simp add: particle_mul_def particle_add_def)
  have vy: "p_m ?q * p_vy ?q = p_m (?ps ! i) * p_vy (?ps ! i) + p_m (?ps ! j) * p_vy (?ps ! j)"
    using mass by (simp add: particle_mul_def particle_add_def)
  have vz: "p_m ?q * p_vz ?q = p_m (?ps ! i) * p_vz (?ps ! i) + p_m (?ps ! j) * p_vz (?ps ! j)"
    using mass by (simp add: particle_mul_def particle_add_def)
  have x: "p_x ?q = (p_m (?ps ! i) * p_x (?ps ! i) + p_m (?ps ! j) * p_x (?ps ! j)) / ?M"
    by (simp add: particle_mul_def particle_add_def)
  have y: "p_y ?q = (p_m (?ps ! i) * p_y (?ps ! i) + p_m (?ps ! j) * p_y (?ps ! j)) / ?M"
    by (simp add: particle_mul_def particle_add_def)
  have z: "p_z ?q = (p_m (?ps ! i) * p_z (?ps ! i) + p_m (?ps ! j) * p_z (?ps ! j)) / ?M"
    by (simp add: particle_mul_def particle_add_def)
  have ax: "p_vx ?q = (p_m (?ps ! i) * p_vx (?ps ! i) + p_m (?ps ! j) * p_vx (?ps ! j)) / ?M"
    by (simp add: particle_mul_def particle_add_def)
  have ay: "p_vy ?q = (p_m (?ps ! i) * p_vy (?ps ! i) + p_m (?ps ! j) * p_vy (?ps ! j)) / ?M"
    by (simp add: particle_mul_def particle_add_def)
  have az: "p_vz ?q = (p_m (?ps ! i) * p_vz (?ps ! i) + p_m (?ps ! j) * p_vz (?ps ! j)) / ?M"
    by (simp add: particle_mul_def particle_add_def)
  show ?thesis
    apply (rule exI [of _ ?sim'])
    unfolding q
    using run len others m rr vx vy vz x y z ax ay az
    apply (intro conjI)
    apply assumption+
    done
qed

text \<open>
  Masses 1 and 3, radii 1 and 2, velocities 2 and -2: the merged body has mass 4, momentum
  -4 and radius \<open>9\<^sup>1\<^sup>/\<^sup>3\<close>, which lies between 2.0800 and 2.0802.
\<close>

theorem perfect_merge_conserves_witness:
  "map_sum id (\<lambda>(sim', directive).
       (p_m (particles sim' ! 0), p_m (particles sim' ! 0) * p_vx (particles sim' ! 0),
        p_r (particles sim' ! 0), directive))
     (perfect_merge (sim_of [(body 1 0 0)\<lparr>p_r := 1, p_vx := 2\<rparr>,
                             (body 3 0 0)\<lparr>p_r := 2, p_vx := - 2\<rparr>]) 0 1)
     = Inr (4, - 4, root 3 9, 2) \<and>
   2.0800 < root 3 9 \<and> root 3 9 < (2.0802::real)"
proof -
  let ?s = "sim_of [(body 1 0 0)\<lparr>p_r := 1, p_vx := 2\<rparr>, (body 3 0 0)\<lparr>p_r := 2, p_vx := - 2\<rparr>]"
  have i: "0 < length (particles ?s)" and j: "1 < length (particles ?s)"
    by (simp_all add: sim_of_def)
  have mass: "p_m (particles ?s ! 0) + p_m (particles ?s ! 1) \<noteq> 0"
    by (simp add: sim_of_def body_def)
  have ri: "0 \<le> p_r (particles ?s ! 0)" and rj: "0 \<le> p_r (particles ?s ! 1)"
    by (simp_all add: sim_of_def body_def)
  have v: "p_m (particles ?s ! 0) + p_m (particles ?s ! 1) = 4"
    "p_m (particles ?s ! 0) * p_vx (particles ?s ! 0) +
     p_m (particles ?s ! 1) * p_vx (particles ?s ! 1) = - 4"
    "(p_r (particles ?s ! 0)) ^ 3 + (p_r (particles ?s ! 1)) ^ 3 = 9"
    by (simp_all add: sim_of_def body_def)
  from perfect_merge_conserves [OF i j mass ri rj]
  obtain sim' where "perfect_merge ?s 0 1 = Inr (sim', 2)"
    and "p_m (particles sim' ! 0) = p_m (particles ?s ! 0) + p_m (particles ?s ! 1)"
    and "p_m (particles sim' ! 0) * p_vx (particles sim' ! 0) =
           p_m (particles ?s ! 0) * p_vx (particles ?s ! 0) +
           p_m (particles ?s ! 1) * p_vx (particles ?s ! 1)"
    and "p_r (particles sim' ! 0) =
           root 3 ((p_r (particles ?s ! 0)) ^ 3 + (p_r (particles ?s ! 1)) ^ 3)"
    by (elim exE conjE)
  then have "map_sum id (\<lambda>(sim', directive).
       (p_m (particles sim' ! 0), p_m (particles sim' ! 0) * p_vx (particles sim' ! 0),
        p_r (particles sim' ! 0), directive)) (perfect_merge ?s 0 1)
     = Inr (4, - 4, root 3 9, 2)"
    by (simp only: v map_sum.simps prod.case)
  with root3_nine_bounds show ?thesis by (intro conjI) simp_all
qed

text \<open>Two massless bodies of radius 1 next to a dominant body of mass 1.\<close>

theorem perfect_merge_massless_counterexample:
  "perfect_merge (sim_of [body 1 0 0, (body 0 1 0)\<lparr>p_r := 1\<rparr>, (body 0 1 0)\<lparr>p_r := 1\<rparr>]) 1 2
     = Inl ZeroDivisionError"
  by (simp add: perfect_merge_def particle_div_def sim_of_def body_def Let_def)

end
